theory Spec2Isabelle
  imports Complex_Main "HOL-Library.Multiset" "HOL-Library.Sublist" "HOL-Library.AList"
begin

section \<open>Data model\<close>

text \<open>
  The routes keep one JSON document on disk (\<^verbatim>\<open>showData.json\<close>) and every handler
  runs the cycle \<^verbatim>\<open>getData()\<close>, mutate, \<^verbatim>\<open>saveData(data)\<close>. The JSON objects are
  modelled as records whose attributes have the types the routes write into them.
  An attribute that JavaScript may find absent (\<^verbatim>\<open>undefined\<close>) or \<^verbatim>\<open>null\<close> is an
  \<open>option\<close>, with \<open>None\<close> for both: the routes only ever test such attributes for
  truthiness. Strings are ASCII character lists. An \<^verbatim>\<open>episodeCount\<close> is whatever JSON
  number the request or the file holds, or \<^verbatim>\<open>null\<close>: the routes do not validate it, and
  for this attribute \<^verbatim>\<open>null\<close> (\<open>Some JNull\<close>) and absence (\<open>None\<close>) are told apart, as the
  test \<^verbatim>\<open>episodeCount !== undefined\<close> tells them apart. Numbers are exact rationals: the
  rounding of a double, its overflow to \<^verbatim>\<open>Infinity\<close> and the limits of memory and of the
  length of an array are out of the model, and so is a string, boolean, array or object
  in the place of the number.
  Record fields carry a prefix (\<open>s_\<close>, \<open>e_\<close>, \<open>m_\<close>, \<open>d_\<close>, \<open>n_\<close>, \<open>u_\<close>, \<open>l_\<close>, \<open>f_\<close>, \<open>c_\<close>)
  because the JavaScript objects share attribute names.
\<close>

datatype media_type = Image | Video

datatype jsnumber = JNull | JNum rat

record mediaItem =
  m_id :: string
  m_filename :: string
  m_originalName :: string
  m_type :: media_type
  m_url :: string

record episode =
  e_title :: string
  e_thumbnail :: "string option"
  e_music :: "string option"
  e_musicOriginalName :: "string option"
  e_media :: "mediaItem list"

record series =
  s_id :: string
  s_title :: string
  s_description :: string
  s_thumbnail :: "string option"
  s_createdAt :: string
  s_episodeCount :: jsnumber
  s_episodes :: "episode list"

text \<open>
  A parsed document: the new shape has \<^verbatim>\<open>series\<close>, the legacy shape has
  \<^verbatim>\<open>showTitle\<close>, \<^verbatim>\<open>episodeCount\<close> and \<^verbatim>\<open>episodes\<close>. Any of the four may be absent.
\<close>

record document =
  d_series :: "series list option"
  d_showTitle :: "string option"
  d_episodeCount :: "jsnumber option"
  d_episodes :: "episode list option"

text \<open>
  What \<^verbatim>\<open>fs.readFileSync\<close> followed by \<^verbatim>\<open>JSON.parse\<close> meets: no file, bytes that are
  not JSON, the JSON value \<^verbatim>\<open>null\<close>, or an object. A parsed number, string, boolean or
  array has none of the four attributes and behaves as the object without attributes.
\<close>

datatype persisted = Missing | Unparsable | ParsedNull | Parsed document

text \<open>
  The state the handlers act on: the persisted file and the log of keys for which
  \<^verbatim>\<open>deleteFromS3\<close> sent a \<^verbatim>\<open>DeleteObjectCommand\<close>, oldest first. Beside each key the log
  keeps, in \<open>s3_seen\<close>, what the file held at the moment of the call, so that the order
  of the deletes and the writes of a handler can be read off the state.
\<close>

record state =
  disk :: persisted
  s3_calls :: "string list"
  s3_seen :: "persisted list"

datatype exn = ENOENT | SyntaxError | TypeError

text \<open>
  Failures of a handler: the explicit 404 and 400 responses, the 500 response of a
  handler's own \<^verbatim>\<open>catch\<close> block, and a \<^verbatim>\<open>TypeError\<close> that leaves a handler which has
  no \<^verbatim>\<open>try\<close>. Thrown by a synchronous handler (\<^verbatim>\<open>(req, res) => ...\<close>), the \<^verbatim>\<open>TypeError\<close>
  reaches the default error handler of Express, which answers 500: \<open>ThrownTypeError\<close>.
  In an \<^verbatim>\<open>async\<close> handler it rejects the promise the handler returned, and the route
  sends no response: \<open>UncaughtTypeError\<close> (Express 4 does not look at that promise;
  Express 5 would answer 500 here too).
\<close>

datatype error =
    NotFound string
  | InvalidIndex
  | InvalidInput string
  | ServerError
  | ThrownTypeError
  | UncaughtTypeError

fun statusCode :: "error \<Rightarrow> nat option" where
  "statusCode (NotFound msg) = Some 404"
| "statusCode InvalidIndex = Some 400"
| "statusCode (InvalidInput msg) = Some 400"
| "statusCode ServerError = Some 500"
| "statusCode ThrownTypeError = Some 500"
| "statusCode UncaughtTypeError = None"

text \<open>The two kinds of handler, and the failure a \<^verbatim>\<open>TypeError\<close> is in each.\<close>

datatype handler = Synchronous | Asynchronous

fun typeErrorIn :: "handler \<Rightarrow> error" where
  "typeErrorIn Synchronous = ThrownTypeError"
| "typeErrorIn Asynchronous = UncaughtTypeError"

section \<open>JavaScript primitives used by the routes\<close>

text \<open>Truthiness of a possibly absent string, number or array.\<close>

fun truthy_str :: "string option \<Rightarrow> bool" where
  "truthy_str None = False"
| "truthy_str (Some s) = (s \<noteq> [])"

fun truthy_num :: "jsnumber option \<Rightarrow> bool" where
  "truthy_num None = False"
| "truthy_num (Some JNull) = False"
| "truthy_num (Some (JNum x)) = (x \<noteq> 0)"

fun truthy_arr :: "'a list option \<Rightarrow> bool" where
  "truthy_arr None = False"
| "truthy_arr (Some xs) = True"

text \<open>The operator \<^verbatim>\<open>a || b\<close> at the three types.\<close>

definition or_str :: "string option \<Rightarrow> string \<Rightarrow> string" where
  "or_str a b = (if truthy_str a then the a else b)"

definition or_count :: "jsnumber option \<Rightarrow> jsnumber \<Rightarrow> jsnumber" where
  "or_count a b = (if truthy_num a then the a else b)"

definition or_arr :: "'a list option \<Rightarrow> 'a list \<Rightarrow> 'a list" where
  "or_arr a b = (if truthy_arr a then the a else b)"

text \<open>
  The number that \<^verbatim>\<open><\<close> and \<^verbatim>\<open>slice\<close> make of their operand (\<^verbatim>\<open>null\<close> counts as 0), and
  its integer part, rounded towards zero, that \<^verbatim>\<open>slice\<close> works with.
\<close>

fun toNumber :: "jsnumber \<Rightarrow> rat" where
  "toNumber JNull = 0"
| "toNumber (JNum x) = x"

definition toIntegerOrInfinity :: "rat \<Rightarrow> int" where
  "toIntegerOrInfinity x = (if x < 0 then \<lceil>x\<rceil> else \<lfloor>x\<rfloor>)"

text \<open>
  \<^verbatim>\<open>xs.slice(0, end)\<close>: a negative end counts from the end of the array, and the result
  never reaches past either end.
\<close>

definition slice0 :: "jsnumber \<Rightarrow> 'a list \<Rightarrow> 'a list" where
  "slice0 end xs =
     (let relativeEnd = toIntegerOrInfinity (toNumber end);
          len = int (length xs);
          final = (if relativeEnd < 0 then max (len + relativeEnd) 0 else min relativeEnd len)
      in take (nat final) xs)"

text \<open>\<^verbatim>\<open>Array.prototype.findIndex\<close>: \<open>None\<close> stands for the result \<^verbatim>\<open>-1\<close>.\<close>

fun findIndex :: "('a \<Rightarrow> bool) \<Rightarrow> 'a list \<Rightarrow> nat option" where
  "findIndex p [] = None"
| "findIndex p (x # xs) =
     (if p x then Some 0 else map_option Suc (findIndex p xs))"

text \<open>\<^verbatim>\<open>Array.prototype.splice(i, 1)\<close>.\<close>

definition splice1 :: "nat \<Rightarrow> 'a list \<Rightarrow> 'a list" where
  "splice1 i xs = take i xs @ drop (Suc i) xs"

text \<open>Decimal rendering of a number in a template literal.\<close>

function numToString :: "nat \<Rightarrow> string" where
  "numToString n =
     (if n < 10 then [char_of (48 + n)]
      else numToString (n div 10) @ [char_of (48 + n mod 10)])"
  by pat_completeness auto
termination
  by (relation "measure id") auto

declare numToString.simps [simp del]

text \<open>
  \<^verbatim>\<open>parseInt(string)\<close> without a radix: leading white space is skipped, a sign is read,
  a \<^verbatim>\<open>0x\<close> prefix selects base 16, and the longest run of digits is the value; no digit
  gives \<^verbatim>\<open>NaN\<close>, here \<open>None\<close>. Values are exact integers (a route parameter long enough
  to lose precision as a double is out of the model).
\<close>

definition isWhiteSpace :: "char \<Rightarrow> bool" where
  "isWhiteSpace c = (c \<in> set [CHR 0x09, CHR 0x0A, CHR 0x0B, CHR 0x0C, CHR 0x0D, CHR '' ''])"

definition digitValue :: "char \<Rightarrow> nat option" where
  "digitValue c =
     (let k = of_char c :: nat in
      if 48 \<le> k \<and> k \<le> 57 then Some (k - 48)
      else if 97 \<le> k \<and> k \<le> 102 then Some (k - 87)
      else if 65 \<le> k \<and> k \<le> 70 then Some (k - 55)
      else None)"

definition isDigitIn :: "nat \<Rightarrow> char \<Rightarrow> bool" where
  "isDigitIn R c = (case digitValue c of None \<Rightarrow> False | Some v \<Rightarrow> v < R)"

definition digitsValue :: "nat \<Rightarrow> string \<Rightarrow> nat" where
  "digitsValue R Z = foldl (\<lambda>acc c. acc * R + the (digitValue c)) 0 Z"

definition parseInt :: "string \<Rightarrow> int option" where
  "parseInt inputString =
     (let S = dropWhile isWhiteSpace inputString;
          neg = (S \<noteq> [] \<and> hd S = CHR ''-'');
          S1 = (if S \<noteq> [] \<and> (hd S = CHR ''+'' \<or> hd S = CHR ''-'') then tl S else S);
          hex = (prefix ''0x'' S1 \<or> prefix ''0X'' S1);
          R = (if hex then 16 else 10);
          S2 = (if hex then drop 2 S1 else S1);
          Z = takeWhile (isDigitIn R) S2
      in if Z = [] then None
         else Some ((if neg then - 1 else 1) * int (digitsValue R Z)))"

text \<open>
  \<^verbatim>\<open>episodeIndex >= xs.length\<close> and \<^verbatim>\<open>xs[episodeIndex]\<close> for the number that \<^verbatim>\<open>parseInt\<close>
  returned: every comparison with \<^verbatim>\<open>NaN\<close> is false, and an index that is \<^verbatim>\<open>NaN\<close>,
  negative or past the end reads \<^verbatim>\<open>undefined\<close>.
\<close>

fun js_ge :: "int option \<Rightarrow> nat \<Rightarrow> bool" where
  "js_ge None n = False"
| "js_ge (Some i) n = (i \<ge> int n)"

fun js_index :: "'a list \<Rightarrow> int option \<Rightarrow> 'a option" where
  "js_index xs None = None"
| "js_index xs (Some i) = (if 0 \<le> i \<and> i < int (length xs) then Some (xs ! nat i) else None)"

text \<open>\<^verbatim>\<open>String.prototype.includes\<close>.\<close>

fun str_includes :: "string \<Rightarrow> string \<Rightarrow> bool" where
  "str_includes [] sub = (sub = [])"
| "str_includes (c # cs) sub = (prefix sub (c # cs) \<or> str_includes cs sub)"

section \<open>config/s3.js\<close>

record config =
  c_bucketName :: string
  c_region :: string

definition getS3Url :: "config \<Rightarrow> string \<Rightarrow> string" where
  "getS3Url cfg key =
     ''https://'' @ c_bucketName cfg @ ''.s3.'' @ c_region cfg @ ''.amazonaws.com/'' @ key"

text \<open>
  \<^verbatim>\<open>deleteFromS3(key)\<close> sends the delete command and turns an exception of the client
  into the result \<^verbatim>\<open>false\<close>. The predicate \<open>fails\<close> says for which keys the client throws.
\<close>

definition deleteFromS3 :: "(string \<Rightarrow> bool) \<Rightarrow> string \<Rightarrow> state \<Rightarrow> bool \<times> state" where
  "deleteFromS3 fails key st =
     (\<not> fails key, st\<lparr>s3_calls := s3_calls st @ [key], s3_seen := s3_seen st @ [disk st]\<rparr>)"

text \<open>
  The match of \<^verbatim>\<open>/\.amazonaws\.com\/(.+)$/\<close>: the leftmost occurrence of
  \<^verbatim>\<open>.amazonaws.com/\<close> whose rest, up to the end of the string, is not empty and has no
  line terminator; the rest is group 1.
\<close>

definition dotPlusToEnd :: "string \<Rightarrow> bool" where
  "dotPlusToEnd r = (r \<noteq> [] \<and> list_all (\<lambda>c. c \<noteq> CHR 0x0A \<and> c \<noteq> CHR 0x0D) r)"

fun matchKey :: "string \<Rightarrow> string option" where
  "matchKey [] = None"
| "matchKey (c # cs) =
     (if prefix ''.amazonaws.com/'' (c # cs) \<and> dotPlusToEnd (drop 15 (c # cs))
      then Some (drop 15 (c # cs))
      else matchKey cs)"

definition getKeyFromUrl :: "string option \<Rightarrow> string option" where
  "getKeyFromUrl url =
     (if \<not> truthy_str url then None
      else if str_includes (the url) ''.s3.'' \<and> str_includes (the url) ''.amazonaws.com/''
        then matchKey (the url)
      else if prefix ''/uploads/'' (the url) then None
      else None)"

section \<open>routes/api.js: loading and saving\<close>

text \<open>
  \<^verbatim>\<open>saveData\<close> overwrites the file with the serialised document; the write is taken to
  succeed, and parsing what was written gives the document back.
\<close>

definition saveData :: "document \<Rightarrow> state \<Rightarrow> state" where
  "saveData data st = st\<lparr>disk := Parsed data\<rparr>"

definition emptyData :: document where
  "emptyData = \<lparr>d_series = Some [], d_showTitle = None, d_episodeCount = None, d_episodes = None\<rparr>"

text \<open>
  The body of the \<^verbatim>\<open>try\<close> in \<^verbatim>\<open>getData\<close>. \<open>uuid\<close> is the value \<^verbatim>\<open>uuidv4()\<close> returns and
  \<open>now\<close> the time stamp, should the migration run. Reading a missing file, parsing
  bytes that are not JSON and reading \<^verbatim>\<open>parsed.series\<close> of \<^verbatim>\<open>null\<close> throw.
\<close>

definition getData_try :: "string \<Rightarrow> string \<Rightarrow> state \<Rightarrow> exn + (document \<times> state)" where
  "getData_try uuid now st =
     (case disk st of
        Missing \<Rightarrow> Inl ENOENT
      | Unparsable \<Rightarrow> Inl SyntaxError
      | ParsedNull \<Rightarrow> Inl TypeError
      | Parsed parsed \<Rightarrow>
          if \<not> truthy_arr (d_series parsed) \<and> truthy_str (d_showTitle parsed) then
            let migratedData =
              \<lparr>d_series = Some [
                 \<lparr>s_id = uuid,
                  s_title = the (d_showTitle parsed),
                  s_description = ''A personal documentary'',
                  s_thumbnail = None,
                  s_createdAt = now,
                  s_episodeCount = or_count (d_episodeCount parsed) (JNum 1),
                  s_episodes = or_arr (d_episodes parsed) []\<rparr>],
               d_showTitle = None, d_episodeCount = None, d_episodes = None\<rparr>
            in Inr (migratedData, saveData migratedData st)
          else Inr (parsed, st))"

definition getData :: "string \<Rightarrow> string \<Rightarrow> state \<Rightarrow> document \<times> state" where
  "getData uuid now st =
     (case getData_try uuid now st of
        Inl e \<Rightarrow> (emptyData, st)
      | Inr r \<Rightarrow> r)"

text \<open>
  \<^verbatim>\<open>data.series\<close> followed by a method call or \<^verbatim>\<open>.length\<close>: a \<^verbatim>\<open>TypeError\<close> when the
  attribute is absent.
\<close>

definition seriesOf :: "document \<Rightarrow> exn + series list" where
  "seriesOf data = (case d_series data of None \<Rightarrow> Inl TypeError | Some ss \<Rightarrow> Inr ss)"

section \<open>routes/api.js: series routes\<close>

definition blankEpisode :: "nat \<Rightarrow> episode" where
  "blankEpisode k =
     \<lparr>e_title = ''Episode '' @ numToString k, e_thumbnail = None, e_music = None,
      e_musicOriginalName = None, e_media = []\<rparr>"

text \<open>
  The loop \<^verbatim>\<open>for (let i = 0; i < newSeries.episodeCount; i++) newSeries.episodes.push(...)\<close>
  of \<^verbatim>\<open>POST /series\<close>.
\<close>

function initEpisodes :: "nat \<Rightarrow> jsnumber \<Rightarrow> episode list \<Rightarrow> episode list" where
  "initEpisodes i episodeCount episodes =
     (if of_nat i < toNumber episodeCount
      then initEpisodes (i + 1) episodeCount (episodes @ [blankEpisode (i + 1)])
      else episodes)"
  by pat_completeness auto
termination
proof (relation "measure (\<lambda>(i, episodeCount, episodes). nat \<lceil>toNumber episodeCount\<rceil> - i)")
  fix i :: nat and episodeCount :: jsnumber and episodes :: "episode list"
  assume "of_nat i < toNumber episodeCount"
  then have "int i < \<lceil>toNumber episodeCount\<rceil>"
    by (simp add: less_ceiling_iff)
  then show "((i + 1, episodeCount, episodes @ [blankEpisode (i + 1)]), i, episodeCount, episodes)
               \<in> measure (\<lambda>(i, episodeCount, episodes). nat \<lceil>toNumber episodeCount\<rceil> - i)"
    by simp
qed simp

declare initEpisodes.simps [simp del]

text \<open>
  The loop \<^verbatim>\<open>while (series.episodes.length < episodeCount) series.episodes.push(...)\<close> of
  \<^verbatim>\<open>PUT /series/:seriesId\<close> and \<^verbatim>\<open>POST /show\<close>.
\<close>

function padEpisodes :: "jsnumber \<Rightarrow> episode list \<Rightarrow> episode list" where
  "padEpisodes episodeCount episodes =
     (if of_nat (length episodes) < toNumber episodeCount
      then padEpisodes episodeCount (episodes @ [blankEpisode (length episodes + 1)])
      else episodes)"
  by pat_completeness auto
termination
proof (relation "measure (\<lambda>(episodeCount, episodes).
                            nat \<lceil>toNumber episodeCount\<rceil> - length episodes)")
  fix episodeCount :: jsnumber and episodes :: "episode list"
  assume "of_nat (length episodes) < toNumber episodeCount"
  then have "int (length episodes) < \<lceil>toNumber episodeCount\<rceil>"
    by (simp add: less_ceiling_iff)
  then show "((episodeCount, episodes @ [blankEpisode (length episodes + 1)]), episodeCount, episodes)
               \<in> measure (\<lambda>(episodeCount, episodes).
                             nat \<lceil>toNumber episodeCount\<rceil> - length episodes)"
    by simp
qed simp

declare padEpisodes.simps [simp del]

record createBody =
  n_title :: "string option"
  n_description :: "string option"
  n_episodeCount :: "jsnumber option"

text \<open>
  \<^verbatim>\<open>POST /series\<close>. \<open>mig\<close> is the identifier \<^verbatim>\<open>uuidv4()\<close> gives to a migration inside
  \<^verbatim>\<open>getData\<close>, \<open>uuid\<close> the one it gives to the new series. The whole handler is inside
  \<^verbatim>\<open>try\<close>: a \<^verbatim>\<open>TypeError\<close> at \<^verbatim>\<open>data.series.push\<close> becomes the 500 response.
\<close>

definition newSeriesOf :: "string \<Rightarrow> string \<Rightarrow> createBody \<Rightarrow> series" where
  "newSeriesOf uuid now body =
     (let episodeCount = or_count (n_episodeCount body) (JNum 1) in
      \<lparr>s_id = uuid,
       s_title = or_str (n_title body) ''Untitled Series'',
       s_description = or_str (n_description body) [],
       s_thumbnail = None,
       s_createdAt = now,
       s_episodeCount = episodeCount,
       s_episodes = initEpisodes 0 episodeCount []\<rparr>)"

definition createSeries ::
  "string \<Rightarrow> string \<Rightarrow> string \<Rightarrow> createBody \<Rightarrow> state \<Rightarrow> (error + series) \<times> state" where
  "createSeries mig uuid now body st0 =
     (let (data, st) = getData mig now st0;
          newSeries = newSeriesOf uuid now body
      in case seriesOf data of
           Inl e \<Rightarrow> (Inl ServerError, st)
         | Inr ss \<Rightarrow>
             (Inr newSeries, saveData (data\<lparr>d_series := Some (ss @ [newSeries])\<rparr>) st))"

text \<open>\<^verbatim>\<open>GET /series\<close>, the spec's \<open>listSeries()\<close>: the body sent is \<^verbatim>\<open>data.series\<close>.\<close>

definition listSeries :: "string \<Rightarrow> string \<Rightarrow> state \<Rightarrow> series list option \<times> state" where
  "listSeries mig now st0 = (let (data, st) = getData mig now st0 in (d_series data, st))"

record updateBody =
  u_title :: "string option"
  u_description :: "string option"
  u_episodeCount :: "jsnumber option"
  u_episodes :: "episode list option"

text \<open>The assignments of \<^verbatim>\<open>PUT /series/:seriesId\<close> to the series it found.\<close>

definition applyUpdate :: "updateBody \<Rightarrow> series \<Rightarrow> series" where
  "applyUpdate body series0 =
     (let series1 = (case u_title body of None \<Rightarrow> series0
                     | Some title \<Rightarrow> series0\<lparr>s_title := title\<rparr>);
          series2 = (case u_description body of None \<Rightarrow> series1
                     | Some description \<Rightarrow> series1\<lparr>s_description := description\<rparr>);
          series3 = (case u_episodes body of None \<Rightarrow> series2
                     | Some episodes \<Rightarrow> series2\<lparr>s_episodes := episodes\<rparr>)
      in case u_episodeCount body of
           None \<Rightarrow> series3
         | Some episodeCount \<Rightarrow>
             if episodeCount \<noteq> s_episodeCount series3
             then series3\<lparr>s_episodeCount := episodeCount,
                         s_episodes := slice0 episodeCount
                                         (padEpisodes episodeCount (s_episodes series3))\<rparr>
             else series3)"

definition updateSeries ::
  "string \<Rightarrow> string \<Rightarrow> string \<Rightarrow> updateBody \<Rightarrow> state \<Rightarrow> (error + series) \<times> state" where
  "updateSeries mig now seriesId body st0 =
     (let (data, st) = getData mig now st0 in
      case seriesOf data of
        Inl e \<Rightarrow> (Inl ServerError, st)
      | Inr ss \<Rightarrow>
          (case findIndex (\<lambda>s. s_id s = seriesId) ss of
             None \<Rightarrow> (Inl (NotFound ''Series not found''), st)
           | Some seriesIndex \<Rightarrow>
               (let series = applyUpdate body (ss ! seriesIndex) in
                (Inr series,
                 saveData (data\<lparr>d_series := Some (ss[seriesIndex := series])\<rparr>) st))))"

text \<open>
  \<^verbatim>\<open>const key = getKeyFromUrl(url); if (key) await deleteFromS3(key);\<close> The result of
  \<^verbatim>\<open>deleteFromS3\<close> is dropped by every caller.
\<close>

definition deleteRef :: "(string \<Rightarrow> bool) \<Rightarrow> string option \<Rightarrow> state \<Rightarrow> state" where
  "deleteRef fails url st =
     (case getKeyFromUrl url of
        None \<Rightarrow> st
      | Some key \<Rightarrow> if key \<noteq> [] then snd (deleteFromS3 fails key st) else st)"

text \<open>\<^verbatim>\<open>if (x) { const key = getKeyFromUrl(x); if (key) await deleteFromS3(key); }\<close>\<close>

definition deleteIfSet :: "(string \<Rightarrow> bool) \<Rightarrow> string option \<Rightarrow> state \<Rightarrow> state" where
  "deleteIfSet fails x st = (if truthy_str x then deleteRef fails x st else st)"

text \<open>
  The body of \<^verbatim>\<open>for (const episode of series.episodes)\<close> in \<^verbatim>\<open>DELETE /series/:seriesId\<close>.
  An episode of the model always has its media array, so the inner loop over
  \<^verbatim>\<open>episode.media || []\<close> is a loop over \<open>e_media\<close>.
\<close>

definition deleteEpisodeFiles :: "(string \<Rightarrow> bool) \<Rightarrow> state \<Rightarrow> episode \<Rightarrow> state" where
  "deleteEpisodeFiles fails st episode =
     (let st1 = deleteIfSet fails (e_thumbnail episode) st;
          st2 = deleteIfSet fails (e_music episode) st1
      in foldl (\<lambda>s media. deleteRef fails (Some (m_url media)) s) st2 (e_media episode))"

text \<open>\<^verbatim>\<open>DELETE /series/:seriesId\<close> of the routes that store assets in S3.\<close>

definition deleteSeries ::
  "(string \<Rightarrow> bool) \<Rightarrow> string \<Rightarrow> string \<Rightarrow> string \<Rightarrow> state \<Rightarrow> (error + unit) \<times> state" where
  "deleteSeries fails mig now seriesId st0 =
     (let (data, st) = getData mig now st0 in
      case seriesOf data of
        Inl e \<Rightarrow> (Inl ServerError, st)
      | Inr ss \<Rightarrow>
          (case findIndex (\<lambda>s. s_id s = seriesId) ss of
             None \<Rightarrow> (Inl (NotFound ''Series not found''), st)
           | Some seriesIndex \<Rightarrow>
               (let series = ss ! seriesIndex;
                    st1 = deleteIfSet fails (s_thumbnail series) st;
                    st2 = foldl (deleteEpisodeFiles fails) st1 (s_episodes series)
                in (Inr (), saveData (data\<lparr>d_series := Some (splice1 seriesIndex ss)\<rparr>) st2))))"

text \<open>
  \<^verbatim>\<open>DELETE /series/:seriesId\<close> of the routes that store assets on the local disk: the
  handler deletes no file (\<^verbatim>\<open>// TODO: Optionally delete associated files\<close>).
\<close>

definition deleteSeries_local ::
  "string \<Rightarrow> string \<Rightarrow> string \<Rightarrow> state \<Rightarrow> (error + unit) \<times> state" where
  "deleteSeries_local mig now seriesId st0 =
     (let (data, st) = getData mig now st0 in
      case seriesOf data of
        Inl e \<Rightarrow> (Inl ServerError, st)
      | Inr ss \<Rightarrow>
          (case findIndex (\<lambda>s. s_id s = seriesId) ss of
             None \<Rightarrow> (Inl (NotFound ''Series not found''), st)
           | Some seriesIndex \<Rightarrow>
               (Inr (), saveData (data\<lparr>d_series := Some (splice1 seriesIndex ss)\<rparr>) st)))"



section \<open>routes/api.js: episode routes\<close>

text \<open>
  The statements every episode route runs after \<^verbatim>\<open>getData()\<close>:
  \<^verbatim>\<open>data.series.find(s => s.id === req.params.seriesId)\<close>, the 404 when nothing is
  found, and the 400 when \<^verbatim>\<open>episodeIndex >= series.episodes.length\<close>. These handlers
  have no \<^verbatim>\<open>try\<close>; \<open>h\<close> is the kind of the handler. The result carries the series
  array, the position of the series found and the series.
\<close>

definition locateEpisode ::
  "handler \<Rightarrow> string \<Rightarrow> int option \<Rightarrow> document
     \<Rightarrow> error + (series list \<times> nat \<times> series)" where
  "locateEpisode h seriesId episodeIndex data =
     (case seriesOf data of
        Inl e \<Rightarrow> Inl (typeErrorIn h)
      | Inr ss \<Rightarrow>
          (case findIndex (\<lambda>s. s_id s = seriesId) ss of
             None \<Rightarrow> Inl (NotFound ''Series not found'')
           | Some i \<Rightarrow>
               if js_ge episodeIndex (length (s_episodes (ss ! i))) then Inl InvalidIndex
               else Inr (ss, i, ss ! i)))"

text \<open>
  The routes mutate \<^verbatim>\<open>series.episodes[episodeIndex]\<close> in place; \<open>putEpisode\<close> is the
  document after such a mutation of episode \<open>k\<close> of the series at position \<open>i\<close>.
\<close>

definition putEpisode :: "document \<Rightarrow> series list \<Rightarrow> nat \<Rightarrow> nat \<Rightarrow> episode \<Rightarrow> document" where
  "putEpisode data ss i k episode =
     data\<lparr>d_series := Some (ss[i := (ss ! i)\<lparr>s_episodes := (s_episodes (ss ! i))[k := episode]\<rparr>])\<rparr>"

text \<open>
  \<^verbatim>\<open>POST /series/:seriesId/upload/thumbnail/:episodeIndex\<close>, an \<^verbatim>\<open>async\<close> handler;
  \<open>reqFile\<close> is \<^verbatim>\<open>req.file.key\<close>.
\<close>

definition uploadEpisodeThumbnail ::
  "config \<Rightarrow> (string \<Rightarrow> bool) \<Rightarrow> string \<Rightarrow> string \<Rightarrow> string \<Rightarrow> string \<Rightarrow> string option
     \<Rightarrow> state \<Rightarrow> (error + string) \<times> state" where
  "uploadEpisodeThumbnail cfg fails mig now seriesId idx reqFile st0 =
     (let episodeIndex = parseInt idx in
      case reqFile of
        None \<Rightarrow> (Inl (InvalidInput ''No file uploaded''), st0)
      | Some key \<Rightarrow>
          (let (data, st) = getData mig now st0 in
           case locateEpisode Asynchronous seriesId episodeIndex data of
             Inl e \<Rightarrow> (Inl e, st)
           | Inr (ss, i, series) \<Rightarrow>
               (case js_index (s_episodes series) episodeIndex of
                  None \<Rightarrow> (Inl UncaughtTypeError, st)
                | Some episode \<Rightarrow>
                    (let st1 = deleteIfSet fails (e_thumbnail episode) st;
                         s3Url = getS3Url cfg key
                     in (Inr s3Url,
                         saveData (putEpisode data ss i (nat (the episodeIndex))
                                     (episode\<lparr>e_thumbnail := Some s3Url\<rparr>)) st1)))))"

record uploadedFile =
  f_key :: string
  f_originalname :: string

definition toLowerCase :: "string \<Rightarrow> string" where
  "toLowerCase s =
     map (\<lambda>c. if 65 \<le> (of_char c :: nat) \<and> (of_char c :: nat) \<le> 90
               then char_of ((of_char c :: nat) + 32) else c) s"

text \<open>\<^verbatim>\<open>/mp4|webm|mov|avi|mkv/.test(ext)\<close>\<close>

definition isVideo :: "string \<Rightarrow> bool" where
  "isVideo ext =
     (str_includes ext ''mp4'' \<or> str_includes ext ''webm'' \<or> str_includes ext ''mov''
      \<or> str_includes ext ''avi'' \<or> str_includes ext ''mkv'')"

text \<open>
  \<^verbatim>\<open>POST /series/:seriesId/upload/media/:episodeIndex\<close>, a synchronous handler.
  \<open>extname\<close> is Node's \<^verbatim>\<open>path.extname\<close>, \<open>uuids k\<close> the identifier \<^verbatim>\<open>uuidv4()\<close> returns for
  the file at position \<open>k\<close>, \<open>reqFiles\<close> is \<^verbatim>\<open>req.files\<close>.
\<close>

definition newMediaOf :: "config \<Rightarrow> (string \<Rightarrow> string) \<Rightarrow> string \<Rightarrow> uploadedFile \<Rightarrow> mediaItem" where
  "newMediaOf cfg extname uuid f =
     \<lparr>m_id = uuid,
      m_filename = f_key f,
      m_originalName = f_originalname f,
      m_type = (if isVideo (toLowerCase (extname (f_originalname f))) then Video else Image),
      m_url = getS3Url cfg (f_key f)\<rparr>"

definition uploadMedia ::
  "config \<Rightarrow> (string \<Rightarrow> string) \<Rightarrow> (nat \<Rightarrow> string) \<Rightarrow> string \<Rightarrow> string \<Rightarrow> string \<Rightarrow> string
     \<Rightarrow> uploadedFile list option \<Rightarrow> state \<Rightarrow> (error + mediaItem list) \<times> state" where
  "uploadMedia cfg extname uuids mig now seriesId idx reqFiles st0 =
     (let episodeIndex = parseInt idx in
      if \<not> truthy_arr reqFiles \<or> length (the reqFiles) = 0
      then (Inl (InvalidInput ''No files uploaded''), st0)
      else
        (let (data, st) = getData mig now st0 in
         case locateEpisode Synchronous seriesId episodeIndex data of
           Inl e \<Rightarrow> (Inl e, st)
         | Inr (ss, i, series) \<Rightarrow>
             (let newMedia = map (\<lambda>(k, f). newMediaOf cfg extname (uuids k) f)
                               (List.enumerate 0 (the reqFiles))
              in case js_index (s_episodes series) episodeIndex of
                   None \<Rightarrow> (Inl ThrownTypeError, st)
                 | Some episode \<Rightarrow>
                     (Inr newMedia,
                      saveData (putEpisode data ss i (nat (the episodeIndex))
                                  (episode\<lparr>e_media := e_media episode @ newMedia\<rparr>)) st))))"

text \<open>
  \<^verbatim>\<open>POST /series/:seriesId/upload/music/:episodeIndex\<close>, an \<^verbatim>\<open>async\<close> handler;
  \<open>reqFile\<close> is \<^verbatim>\<open>req.file\<close> with its key and original name.
\<close>

definition uploadMusic ::
  "config \<Rightarrow> (string \<Rightarrow> bool) \<Rightarrow> string \<Rightarrow> string \<Rightarrow> string \<Rightarrow> string \<Rightarrow> uploadedFile option
     \<Rightarrow> state \<Rightarrow> (error + string) \<times> state" where
  "uploadMusic cfg fails mig now seriesId idx reqFile st0 =
     (let episodeIndex = parseInt idx in
      case reqFile of
        None \<Rightarrow> (Inl (InvalidInput ''No file uploaded''), st0)
      | Some f \<Rightarrow>
          (let (data, st) = getData mig now st0 in
           case locateEpisode Asynchronous seriesId episodeIndex data of
             Inl e \<Rightarrow> (Inl e, st)
           | Inr (ss, i, series) \<Rightarrow>
               (case js_index (s_episodes series) episodeIndex of
                  None \<Rightarrow> (Inl UncaughtTypeError, st)
                | Some episode \<Rightarrow>
                    (let st1 = deleteIfSet fails (e_music episode) st;
                         s3Url = getS3Url cfg (f_key f)
                     in (Inr s3Url,
                         saveData (putEpisode data ss i (nat (the episodeIndex))
                                     (episode\<lparr>e_music := Some s3Url,
                                              e_musicOriginalName := Some (f_originalname f)\<rparr>))
                                  st1)))))"

text \<open>\<^verbatim>\<open>DELETE /series/:seriesId/music/:episodeIndex\<close>, an \<^verbatim>\<open>async\<close> handler.\<close>

definition deleteMusic ::
  "(string \<Rightarrow> bool) \<Rightarrow> string \<Rightarrow> string \<Rightarrow> string \<Rightarrow> string \<Rightarrow> state \<Rightarrow> (error + unit) \<times> state" where
  "deleteMusic fails mig now seriesId idx st0 =
     (let episodeIndex = parseInt idx;
          (data, st) = getData mig now st0
      in case locateEpisode Asynchronous seriesId episodeIndex data of
           Inl e \<Rightarrow> (Inl e, st)
         | Inr (ss, i, series) \<Rightarrow>
             (case js_index (s_episodes series) episodeIndex of
                None \<Rightarrow> (Inl UncaughtTypeError, st)
              | Some episode \<Rightarrow>
                  if truthy_str (e_music episode) then
                    (let st1 = deleteRef fails (e_music episode) st
                     in (Inr (),
                         saveData (putEpisode data ss i (nat (the episodeIndex))
                                     (episode\<lparr>e_music := None, e_musicOriginalName := None\<rparr>))
                                  st1))
                  else (Inr (), st)))"

text \<open>\<^verbatim>\<open>DELETE /series/:seriesId/media/:episodeIndex/:mediaId\<close>, an \<^verbatim>\<open>async\<close> handler.\<close>

definition deleteMedia ::
  "(string \<Rightarrow> bool) \<Rightarrow> string \<Rightarrow> string \<Rightarrow> string \<Rightarrow> string \<Rightarrow> string \<Rightarrow> state
     \<Rightarrow> (error + unit) \<times> state" where
  "deleteMedia fails mig now seriesId idx mediaId st0 =
     (let episodeIndex = parseInt idx;
          (data, st) = getData mig now st0
      in case locateEpisode Asynchronous seriesId episodeIndex data of
           Inl e \<Rightarrow> (Inl e, st)
         | Inr (ss, i, series) \<Rightarrow>
             (case js_index (s_episodes series) episodeIndex of
                None \<Rightarrow> (Inl UncaughtTypeError, st)
              | Some episode \<Rightarrow>
                  (case findIndex (\<lambda>m. m_id m = mediaId) (e_media episode) of
                     None \<Rightarrow> (Inl (NotFound ''Media not found''), st)
                   | Some mediaIndex \<Rightarrow>
                       (let mediaFile = e_media episode ! mediaIndex;
                            st1 = deleteRef fails (Some (m_url mediaFile)) st
                        in (Inr (),
                            saveData (putEpisode data ss i (nat (the episodeIndex))
                                        (episode\<lparr>e_media := splice1 mediaIndex (e_media episode)\<rparr>))
                                     st1)))))"

text \<open>
  The reordering of \<^verbatim>\<open>POST /series/:seriesId/media/:episodeIndex/reorder\<close>. The
  JavaScript \<^verbatim>\<open>Map\<close> keeps its entries in insertion order and \<^verbatim>\<open>set\<close> on a key it
  already has replaces the value in place: an association list under
  \<open>AList.update\<close> and \<open>AList.delete\<close>.
\<close>

definition buildMediaMap :: "mediaItem list \<Rightarrow> (string \<times> mediaItem) list" where
  "buildMediaMap media = foldl (\<lambda>mediaMap m. AList.update (m_id m) m mediaMap) [] media"

definition reorderStep ::
  "mediaItem list \<times> (string \<times> mediaItem) list \<Rightarrow> string
     \<Rightarrow> mediaItem list \<times> (string \<times> mediaItem) list" where
  "reorderStep acc ident =
     (case acc of (reorderedMedia, mediaMap) \<Rightarrow>
        (case map_of mediaMap ident of
           Some m \<Rightarrow> (reorderedMedia @ [m], AList.delete ident mediaMap)
         | None \<Rightarrow> (reorderedMedia, mediaMap)))"

definition reorderList :: "mediaItem list \<Rightarrow> string list \<Rightarrow> mediaItem list" where
  "reorderList media mediaIds =
     (let (reorderedMedia, mediaMap) = foldl reorderStep ([], buildMediaMap media) mediaIds
      in reorderedMedia @ map snd mediaMap)"

text \<open>
  The handler, a synchronous one; \<open>mediaIds\<close> is \<open>None\<close> when the body's \<^verbatim>\<open>mediaIds\<close> is
  not an array.
\<close>

definition reorderMedia ::
  "string \<Rightarrow> string \<Rightarrow> string \<Rightarrow> string \<Rightarrow> string list option \<Rightarrow> state
     \<Rightarrow> (error + mediaItem list) \<times> state" where
  "reorderMedia mig now seriesId idx mediaIds st0 =
     (let episodeIndex = parseInt idx in
      case mediaIds of
        None \<Rightarrow> (Inl (InvalidInput ''mediaIds must be an array''), st0)
      | Some ids \<Rightarrow>
          (let (data, st) = getData mig now st0 in
           case locateEpisode Synchronous seriesId episodeIndex data of
             Inl e \<Rightarrow> (Inl e, st)
           | Inr (ss, i, series) \<Rightarrow>
               (case js_index (s_episodes series) episodeIndex of
                  None \<Rightarrow> (Inl ThrownTypeError, st)
                | Some episode \<Rightarrow>
                    (let reorderedMedia = reorderList (e_media episode) ids
                     in (Inr reorderedMedia,
                         saveData (putEpisode data ss i (nat (the episodeIndex))
                                     (episode\<lparr>e_media := reorderedMedia\<rparr>)) st)))))"

section \<open>Notions of the specification\<close>

text \<open>
  The asset references reachable from a series, as the specification lists them: the
  series thumbnail if it is not null, then for each episode its thumbnail, its music
  and the reference of each media item.
\<close>

fun nonNull :: "'a option \<Rightarrow> 'a list" where
  "nonNull None = []"
| "nonNull (Some x) = [x]"

definition episodeRefs :: "episode \<Rightarrow> string list" where
  "episodeRefs e = nonNull (e_thumbnail e) @ nonNull (e_music e) @ map m_url (e_media e)"

definition assetRefs :: "series \<Rightarrow> string list" where
  "assetRefs s = nonNull (s_thumbnail s) @ concat (map episodeRefs (s_episodes s))"

text \<open>The invariant of the specification's data model for a series.\<close>

definition consistent :: "series \<Rightarrow> bool" where
  "consistent s = (s_episodeCount s = JNum (of_nat (length (s_episodes s))))"


text \<open>
  The specification's description of \<open>reorderMedia\<close>: for each identifier of the list,
  in order, the matching item is moved to the output if there is one; the items that
  were not mentioned follow in their original order.
\<close>

fun moveMatching :: "mediaItem list \<Rightarrow> string list \<Rightarrow> mediaItem list" where
  "moveMatching media [] = []"
| "moveMatching media (i # ids) =
     filter (\<lambda>m. m_id m = i) media @ moveMatching (filter (\<lambda>m. m_id m \<noteq> i) media) ids"

definition reorderSpec :: "mediaItem list \<Rightarrow> string list \<Rightarrow> mediaItem list" where
  "reorderSpec media ids = moveMatching media ids @ filter (\<lambda>m. m_id m \<notin> set ids) media"

text \<open>
  The specification's description of the migration of a legacy document: one series
  whose title is the legacy \<open>showTitle\<close>, with \<open>episodeCount\<close> and \<open>episodes\<close> copied
  from the legacy attributes, 1 and the empty sequence standing in for an absent one.
\<close>

definition migrationSpec :: "string \<Rightarrow> string \<Rightarrow> document \<Rightarrow> document" where
  "migrationSpec uuid now legacy =
     \<lparr>d_series = Some [
        \<lparr>s_id = uuid,
         s_title = the (d_showTitle legacy),
         s_description = ''A personal documentary'',
         s_thumbnail = None,
         s_createdAt = now,
         s_episodeCount = (case d_episodeCount legacy of None \<Rightarrow> JNum 1 | Some c \<Rightarrow> c),
         s_episodes = (case d_episodes legacy of None \<Rightarrow> [] | Some es \<Rightarrow> es)\<rparr>],
      d_showTitle = None, d_episodeCount = None, d_episodes = None\<rparr>"

text \<open>
  The specification's grow and truncate rule for a requested count \<open>n\<close>: the first \<open>n\<close>
  of the episodes followed by fresh ones titled by their one-based position.
\<close>

definition reconcileSpec :: "nat \<Rightarrow> episode list \<Rightarrow> episode list" where
  "reconcileSpec n episodes =
     take n (episodes @ map blankEpisode [length episodes + 1 ..< n + 1])"

text \<open>The storage keys that \<^verbatim>\<open>getKeyFromUrl\<close> resolves a list of references to.\<close>

definition resolvedKeys :: "string list \<Rightarrow> string list" where
  "resolvedKeys refs = concat (map (\<lambda>r. nonNull (getKeyFromUrl (Some r))) refs)"

text \<open>
  The state after delete calls for the keys \<open>ks\<close>, in this order, with no write in
  between: each call saw the file as it is.
\<close>

definition logged :: "string list \<Rightarrow> state \<Rightarrow> state" where
  "logged ks st =
     st\<lparr>s3_calls := s3_calls st @ ks, s3_seen := s3_seen st @ replicate (length ks) (disk st)\<rparr>"

text \<open>The entries of the \<^verbatim>\<open>Map\<close> that the reorder route builds from media with distinct identifiers.\<close>

definition entries :: "mediaItem list \<Rightarrow> (string \<times> mediaItem) list" where
  "entries media = map (\<lambda>m. (m_id m, m)) media"


section \<open>Concrete documents\<close>

definition onDisk :: "document \<Rightarrow> state" where
  "onDisk d = \<lparr>disk = Parsed d, s3_calls = [], s3_seen = []\<rparr>"

definition docWith :: "series list \<Rightarrow> document" where
  "docWith ss = \<lparr>d_series = Some ss, d_showTitle = None, d_episodeCount = None, d_episodes = None\<rparr>"

text \<open>The JSON object \<^verbatim>\<open>{}\<close>.\<close>

definition emptyObject :: document where
  "emptyObject = \<lparr>d_series = None, d_showTitle = None, d_episodeCount = None, d_episodes = None\<rparr>"

text \<open>\<^verbatim>\<open>{"showTitle": "X", "episodeCount": 0, "episodes": []}\<close>\<close>

definition legacyZero :: document where
  "legacyZero =
     \<lparr>d_series = None, d_showTitle = Some ''X'', d_episodeCount = Some (JNum 0),
      d_episodes = Some []\<rparr>"

text \<open>\<^verbatim>\<open>{"showTitle": "", "episodeCount": 1, "episodes": [{"title": "Episode 1", ...}]}\<close>\<close>

definition legacyUntitled :: document where
  "legacyUntitled =
     \<lparr>d_series = None, d_showTitle = Some [], d_episodeCount = Some (JNum 1),
      d_episodes = Some [blankEpisode 1]\<rparr>"

text \<open>\<^verbatim>\<open>{"showTitle": "X", "episodeCount": 2, "episodes": [two episodes]}\<close>\<close>

definition legacyTwo :: document where
  "legacyTwo =
     \<lparr>d_series = None, d_showTitle = Some ''X'', d_episodeCount = Some (JNum 2),
      d_episodes = Some [blankEpisode 1, blankEpisode 2]\<rparr>"

definition neverFails :: "string \<Rightarrow> bool" where
  "neverFails key = False"

definition localThumbSeries :: series where
  "localThumbSeries =
     \<lparr>s_id = ''s1'', s_title = ''Trip'', s_description = [],
      s_thumbnail = Some ''/uploads/series-thumbnails/a.png'', s_createdAt = ''t0'',
      s_episodeCount = JNum 1, s_episodes = [blankEpisode 1]\<rparr>"

definition legacyBare :: document where
  "legacyBare = \<lparr>d_series = None, d_showTitle = Some ''X'', d_episodeCount = None, d_episodes = None\<rparr>"

definition countOnly :: "nat \<Rightarrow> updateBody" where
  "countOnly n =
     \<lparr>u_title = None, u_description = None, u_episodeCount = Some (JNum (of_nat n)),
      u_episodes = None\<rparr>"


definition tripSeries :: series where
  "tripSeries =
     \<lparr>s_id = ''s1'', s_title = ''Trip'', s_description = [], s_thumbnail = None,
      s_createdAt = ''t0'', s_episodeCount = JNum 2,
      s_episodes = [blankEpisode 1, blankEpisode 2]\<rparr>"

definition alwaysFails :: "string \<Rightarrow> bool" where
  "alwaysFails key = True"

definition mediaA :: mediaItem where
  "mediaA = \<lparr>m_id = ''ma'', m_filename = ''media/a.png'', m_originalName = ''a.png'',
             m_type = Image, m_url = ''https://b.s3.ap-south-1.amazonaws.com/media/a.png''\<rparr>"

definition mediaB :: mediaItem where
  "mediaB = \<lparr>m_id = ''mb'', m_filename = ''media/b.mp4'', m_originalName = ''b.mp4'',
             m_type = Video, m_url = ''https://b.s3.ap-south-1.amazonaws.com/media/b.mp4''\<rparr>"

definition mediaC :: mediaItem where
  "mediaC = \<lparr>m_id = ''mc'', m_filename = ''c.png'', m_originalName = ''c.png'',
             m_type = Image, m_url = ''/uploads/media/c.png''\<rparr>"

text \<open>A second item with the identifier of \<open>mediaA\<close>, as a caller may store it with \<^verbatim>\<open>PUT\<close>.\<close>

definition mediaA2 :: mediaItem where
  "mediaA2 = \<lparr>m_id = ''ma'', m_filename = ''media/a2.png'', m_originalName = ''a2.png'',
              m_type = Image, m_url = ''https://b.s3.ap-south-1.amazonaws.com/media/a2.png''\<rparr>"

definition duplicateSeries :: series where
  "duplicateSeries =
     \<lparr>s_id = ''s3'', s_title = ''Duplicate'', s_description = [], s_thumbnail = None,
      s_createdAt = ''t0'', s_episodeCount = JNum 1,
      s_episodes = [(blankEpisode 1)\<lparr>e_media := [mediaA, mediaB, mediaA2]\<rparr>]\<rparr>"

definition twinSeries :: series where
  "twinSeries =
     \<lparr>s_id = ''s4'', s_title = ''Twin'', s_description = [], s_thumbnail = None,
      s_createdAt = ''t0'', s_episodeCount = JNum 1,
      s_episodes = [(blankEpisode 1)\<lparr>e_media := [mediaA, mediaA2]\<rparr>]\<rparr>"

definition galleryEpisode :: episode where
  "galleryEpisode =
     \<lparr>e_title = ''Episode 1'',
      e_thumbnail = Some ''https://b.s3.ap-south-1.amazonaws.com/thumbnails/e.png'',
      e_music = Some ''/uploads/music/m.mp3'',
      e_musicOriginalName = Some ''m.mp3'',
      e_media = [mediaA, mediaB, mediaC]\<rparr>"

definition gallerySeries :: series where
  "gallerySeries =
     \<lparr>s_id = ''s2'', s_title = ''Gallery'', s_description = [],
      s_thumbnail = Some ''https://b.s3.ap-south-1.amazonaws.com/series-thumbnails/t.png'',
      s_createdAt = ''t0'', s_episodeCount = JNum 1, s_episodes = [galleryEpisode]\<rparr>"

definition sampleConfig :: config where
  "sampleConfig = \<lparr>c_bucketName = ''b'', c_region = ''ap-south-1''\<rparr>"

definition sampleUpload :: uploadedFile where
  "sampleUpload = \<lparr>f_key = ''music/n.mp3'', f_originalname = ''n.mp3''\<rparr>"

text \<open>A file that the filter of the media upload lets through.\<close>

definition sampleMedia :: uploadedFile where
  "sampleMedia = \<lparr>f_key = ''media/n.png'', f_originalname = ''n.png''\<rparr>"

text \<open>\<^verbatim>\<open>path.extname\<close> on a name like \<^verbatim>\<open>n.png\<close>: what follows the last dot, with the dot.\<close>

definition sampleExtname :: "string \<Rightarrow> string" where
  "sampleExtname name = CHR ''.'' # rev (takeWhile (\<lambda>c. c \<noteq> CHR ''.'') (rev name))"

definition sampleUuids :: "nat \<Rightarrow> string" where
  "sampleUuids k = ''m'' @ numToString k"






section \<open>Properties of the loops\<close>

lemma upt_from_below_ceiling:
  "of_nat k < (x::rat) \<Longrightarrow> [k + 1 ..< nat \<lceil>x\<rceil> + 1] = (k + 1) # [k + 2 ..< nat \<lceil>x\<rceil> + 1]"
proof -
  assume "of_nat k < x"
  then have "int k < \<lceil>x\<rceil>"
    by (simp add: less_ceiling_iff)
  then have "k < nat \<lceil>x\<rceil>"
    by linarith
  then show ?thesis
    by (simp add: upt_conv_Cons)
qed

lemma upt_from_ceiling_up:
  "\<not> of_nat k < (x::rat) \<Longrightarrow> [k + 1 ..< nat \<lceil>x\<rceil> + 1] = []"
proof -
  assume "\<not> of_nat k < x"
  then have "\<not> int k < \<lceil>x\<rceil>"
    by (simp add: less_ceiling_iff)
  then have "nat \<lceil>x\<rceil> \<le> k"
    by linarith
  then show ?thesis
    by simp
qed

lemma initEpisodes_eq:
  "initEpisodes i c eps = eps @ map blankEpisode [i + 1 ..< nat \<lceil>toNumber c\<rceil> + 1]"
proof (induction i c eps rule: initEpisodes.induct)
  case (1 i c eps)
  show ?case
  proof (cases "of_nat i < toNumber c")
    case True
    from True "1" upt_from_below_ceiling [OF True] show ?thesis
      by (subst initEpisodes.simps) simp
  next
    case False
    from False upt_from_ceiling_up [OF False] show ?thesis
      by (subst initEpisodes.simps) simp
  qed
qed

lemma padEpisodes_eq:
  "padEpisodes c eps = eps @ map blankEpisode [length eps + 1 ..< nat \<lceil>toNumber c\<rceil> + 1]"
proof (induction c eps rule: padEpisodes.induct)
  case (1 c eps)
  show ?case
  proof (cases "of_nat (length eps) < toNumber c")
    case True
    from True "1" upt_from_below_ceiling [OF True] show ?thesis
      by (subst padEpisodes.simps) simp
  next
    case False
    from False upt_from_ceiling_up [OF False] show ?thesis
      by (subst padEpisodes.simps) simp
  qed
qed

lemma truthy_num_Some: "truthy_num (Some c) \<longleftrightarrow> c \<noteq> JNull \<and> c \<noteq> JNum 0"
  by (cases c) auto

lemma slice0_natural: "slice0 (JNum (of_nat n)) xs = take n xs"
  by (simp add: slice0_def toIntegerOrInfinity_def Let_def min_def)


lemma numToString_one: "numToString (Suc 0) = ''1''"
  by code_simp

section \<open>Loading the document\<close>

lemma getData_keeps_calls: "s3_calls (snd (getData uuid now st)) = s3_calls st"
  by (cases "disk st") (auto simp: getData_def getData_try_def saveData_def Let_def)

lemma getData_keeps_seen: "s3_seen (snd (getData uuid now st)) = s3_seen st"
  by (cases "disk st") (auto simp: getData_def getData_try_def saveData_def Let_def)

lemma getData_on_disk:
  "getData uuid now st0 = (data, st) \<Longrightarrow> d_series data = Some ss \<Longrightarrow> ss \<noteq> [] \<Longrightarrow>
   disk st = Parsed data"
  by (cases "disk st0")
     (auto simp: getData_def getData_try_def saveData_def emptyData_def Let_def
       split: if_splits)

text \<open>
  C7. \<^verbatim>\<open>getData\<close> has no failing result: whatever its \<^verbatim>\<open>try\<close> body throws, in any
  state, is caught and answered with the document \<^verbatim>\<open>{series: []}\<close>. When the file is
  missing or is not JSON the body throws, so \<^verbatim>\<open>getData\<close> returns \<^verbatim>\<open>{series: []}\<close> and
  leaves the state alone.
\<close>

theorem getData_fails_soft:
  assumes "disk st = Missing \<or> disk st = Unparsable"
  shows "(\<exists>e. getData_try uuid now st = Inl e)
         \<and> getData uuid now st = (emptyData, st)
         \<and> d_series (fst (getData uuid now st)) = Some []
         \<and> (\<forall>st' e. getData_try uuid now st' = Inl e
                \<longrightarrow> getData uuid now st' = (emptyData, st'))"
  using assms by (auto simp: getData_def getData_try_def emptyData_def)

theorem getData_fails_soft_witness:
  "(disk \<lparr>disk = Missing, s3_calls = [], s3_seen = []\<rparr> = Missing
      \<or> disk \<lparr>disk = Missing, s3_calls = [], s3_seen = []\<rparr> = Unparsable)
   \<and> getData ''u1'' ''t1'' \<lparr>disk = Missing, s3_calls = [], s3_seen = []\<rparr>
       = (\<lparr>d_series = Some [], d_showTitle = None, d_episodeCount = None, d_episodes = None\<rparr>,
          \<lparr>disk = Missing, s3_calls = [], s3_seen = []\<rparr>)"
  using getData_fails_soft [of "\<lparr>disk = Missing, s3_calls = [], s3_seen = []\<rparr>" "''u1''" "''t1''"]
  by (simp add: emptyData_def)

text \<open>
  C8. The claim fails on the persisted JSON \<^verbatim>\<open>{}\<close>: \<^verbatim>\<open>getData\<close> returns the parsed
  object as it is, without a \<^verbatim>\<open>series\<close> attribute, and the next \<^verbatim>\<open>data.series.find\<close> or
  \<^verbatim>\<open>data.series.push\<close> of a route is a \<^verbatim>\<open>TypeError\<close>.
\<close>

theorem getData_empty_object_no_series:
  "getData ''u1'' ''t1'' (onDisk emptyObject) = (emptyObject, onDisk emptyObject)
   \<and> d_series emptyObject = None
   \<and> seriesOf (fst (getData ''u1'' ''t1'' (onDisk emptyObject))) = Inl TypeError"
  by (simp add: getData_def getData_try_def emptyObject_def seriesOf_def onDisk_def)

text \<open>
  C6, as stated, fails: a legacy \<open>episodeCount\<close> of 0 is not copied (the migrated series
  gets 1), and a legacy document whose \<open>showTitle\<close> is the empty string is not migrated
  at all.
\<close>

theorem migration_counterexample:
  "d_episodeCount legacyZero = Some (JNum 0)
   \<and> map s_episodeCount (the (d_series (fst (getData ''u1'' ''t1'' (onDisk legacyZero)))))
       = [JNum 1]
   \<and> fst (getData ''u1'' ''t1'' (onDisk legacyZero)) \<noteq> migrationSpec ''u1'' ''t1'' legacyZero
   \<and> d_showTitle legacyUntitled = Some []
   \<and> d_series (fst (getData ''u1'' ''t1'' (onDisk legacyUntitled))) = None"
  by (simp add: getData_def getData_try_def onDisk_def legacyZero_def legacyUntitled_def
      migrationSpec_def or_count_def or_arr_def saveData_def Let_def)

text \<open>
  C6, amended. For a persisted document without \<open>series\<close> whose \<open>showTitle\<close> is a
  non-empty string, \<^verbatim>\<open>getData\<close> returns and persists a document with exactly one series:
  the generated identifier, the legacy title, the fixed description, \<open>episodeCount\<close>
  copied from the legacy attribute unless that is absent, \<^verbatim>\<open>null\<close> or 0, when it is 1,
  and \<open>episodes\<close> copied unless absent, when it is empty. A second \<^verbatim>\<open>getData\<close> returns
  the same document and writes nothing. Unless the legacy count is 0 or \<^verbatim>\<open>null\<close> the
  document is the one the specification describes.
\<close>

theorem migration_of_legacy:
  assumes "disk st = Parsed legacy"
    and "d_series legacy = None"
    and "d_showTitle legacy = Some showTitle" and "showTitle \<noteq> []"
    and "m = \<lparr>d_series = Some [
                \<lparr>s_id = uuid, s_title = showTitle, s_description = ''A personal documentary'',
                 s_thumbnail = None, s_createdAt = now,
                 s_episodeCount = (case d_episodeCount legacy of None \<Rightarrow> JNum 1
                                   | Some c \<Rightarrow> if c = JNum 0 \<or> c = JNull then JNum 1 else c),
                 s_episodes = (case d_episodes legacy of None \<Rightarrow> [] | Some es \<Rightarrow> es)\<rparr>],
              d_showTitle = None, d_episodeCount = None, d_episodes = None\<rparr>"
  shows "getData uuid now st = (m, st\<lparr>disk := Parsed m\<rparr>)
         \<and> getData uuid' now' (st\<lparr>disk := Parsed m\<rparr>) = (m, st\<lparr>disk := Parsed m\<rparr>)
         \<and> (d_episodeCount legacy \<noteq> Some (JNum 0) \<and> d_episodeCount legacy \<noteq> Some JNull
              \<longrightarrow> m = migrationSpec uuid now legacy)"
  using assms
  by (auto simp: getData_def getData_try_def migrationSpec_def or_count_def or_arr_def
      truthy_num_Some saveData_def Let_def split: option.splits)

theorem migration_of_legacy_witness:
  "getData ''u1'' ''t1'' (onDisk legacyTwo)
     = (migrationSpec ''u1'' ''t1'' legacyTwo, onDisk (migrationSpec ''u1'' ''t1'' legacyTwo))
   \<and> getData ''u2'' ''t2'' (onDisk (migrationSpec ''u1'' ''t1'' legacyTwo))
     = (migrationSpec ''u1'' ''t1'' legacyTwo, onDisk (migrationSpec ''u1'' ''t1'' legacyTwo))
   \<and> map s_title (the (d_series (migrationSpec ''u1'' ''t1'' legacyTwo))) = [''X'']"
  using migration_of_legacy [of "onDisk legacyTwo" legacyTwo "''X''"
      "migrationSpec ''u1'' ''t1'' legacyTwo" "''u1''" "''t1''" "''u2''" "''t2''"]
  by (simp add: onDisk_def legacyTwo_def migrationSpec_def)

section \<open>Creating a series\<close>

text \<open>
  C10. A requested \<open>episodeCount\<close> of 0 gives the same result and the same state as an
  omitted one; the series created has \<open>episodeCount\<close> 1 and the single episode
  \<open>Episode 1\<close>, and it is the last series of the persisted document. The request only
  fails, with the 500 response, when the loaded document has no \<open>series\<close>.
\<close>

theorem createSeries_zero_count:
  "createSeries mig uuid now (body\<lparr>n_episodeCount := Some (JNum 0)\<rparr>) st
     = createSeries mig uuid now (body\<lparr>n_episodeCount := None\<rparr>) st
   \<and> (case fst (createSeries mig uuid now (body\<lparr>n_episodeCount := Some (JNum 0)\<rparr>) st) of
         Inl e \<Rightarrow> e = ServerError \<and> d_series (fst (getData mig now st)) = None
       | Inr s \<Rightarrow>
           s_episodeCount s = JNum 1
           \<and> s_episodes s = [\<lparr>e_title = ''Episode 1'', e_thumbnail = None, e_music = None,
                               e_musicOriginalName = None, e_media = []\<rparr>]
           \<and> (\<exists>d ss. disk (snd (createSeries mig uuid now (body\<lparr>n_episodeCount := Some (JNum 0)\<rparr>) st))
                        = Parsed d \<and> d_series d = Some (ss @ [s])))"
  by (auto simp: createSeries_def newSeriesOf_def or_count_def initEpisodes_eq blankEpisode_def
      numToString_one seriesOf_def saveData_def Let_def
      split: prod.splits option.splits sum.splits)

section \<open>Deleting a series\<close>

lemma matchKey_nonempty: "matchKey s = Some k \<Longrightarrow> k \<noteq> []"
  by (induction s) (auto simp: dotPlusToEnd_def split: if_splits)

lemma getKeyFromUrl_nonempty: "getKeyFromUrl url = Some k \<Longrightarrow> k \<noteq> []"
  by (auto simp: getKeyFromUrl_def dest: matchKey_nonempty split: if_splits)

lemma logged_Nil [simp]: "logged [] st = st"
  by (simp add: logged_def)

lemma logged_logged [simp]: "logged ks (logged ks' st) = logged (ks' @ ks) st"
  by (simp add: logged_def replicate_add)

lemma deleteRef_eq:
  "deleteRef fails url st = logged (nonNull (getKeyFromUrl url)) st"
  by (cases "getKeyFromUrl url")
     (auto simp: deleteRef_def deleteFromS3_def logged_def dest: getKeyFromUrl_nonempty)

lemma getKeyFromUrl_falsy: "\<not> truthy_str x \<Longrightarrow> getKeyFromUrl x = None"
  by (simp add: getKeyFromUrl_def)

lemma deleteIfSet_eq:
  "deleteIfSet fails x st = logged (resolvedKeys (nonNull x)) st"
  by (cases x) (auto simp: deleteIfSet_def deleteRef_eq resolvedKeys_def getKeyFromUrl_falsy)

lemma resolvedKeys_append [simp]:
  "resolvedKeys (xs @ ys) = resolvedKeys xs @ resolvedKeys ys"
  by (simp add: resolvedKeys_def)

lemma resolvedKeys_Nil [simp]: "resolvedKeys [] = []"
  by (simp add: resolvedKeys_def)

lemma deleteMediaRefs_eq:
  "foldl (\<lambda>s media. deleteRef fails (Some (m_url media)) s) st ms
     = logged (resolvedKeys (map m_url ms)) st"
proof (induction ms arbitrary: st)
  case Nil
  show ?case by simp
next
  case (Cons m ms)
  have "foldl (\<lambda>s media. deleteRef fails (Some (m_url media)) s) st (m # ms)
          = foldl (\<lambda>s media. deleteRef fails (Some (m_url media)) s)
              (deleteRef fails (Some (m_url m)) st) ms"
    by (simp only: foldl_Cons)
  also have "\<dots> = logged (resolvedKeys (map m_url ms)) (deleteRef fails (Some (m_url m)) st)"
    by (rule Cons.IH)
  also have "\<dots> = logged (resolvedKeys (map m_url (m # ms))) st"
    by (simp add: deleteRef_eq resolvedKeys_def)
  finally show ?case .
qed

lemma deleteEpisodeFiles_eq:
  "deleteEpisodeFiles fails st e = logged (resolvedKeys (episodeRefs e)) st"
  by (simp add: deleteEpisodeFiles_def deleteIfSet_eq deleteMediaRefs_eq episodeRefs_def Let_def)

lemma deleteAllEpisodeFiles_eq:
  "foldl (deleteEpisodeFiles fails) st es
     = logged (resolvedKeys (concat (map episodeRefs es))) st"
proof (induction es arbitrary: st)
  case Nil
  show ?case by simp
next
  case (Cons e es)
  have "foldl (deleteEpisodeFiles fails) st (e # es)
          = foldl (deleteEpisodeFiles fails) (deleteEpisodeFiles fails st e) es"
    by (simp only: foldl_Cons)
  also have "\<dots> = logged (resolvedKeys (concat (map episodeRefs es)))
                     (deleteEpisodeFiles fails st e)"
    by (rule Cons.IH)
  also have "\<dots> = logged (resolvedKeys (concat (map episodeRefs (e # es)))) st"
    by (simp add: deleteEpisodeFiles_eq)
  finally show ?case .
qed

lemma findIndex_Some:
  "findIndex p xs = Some i \<Longrightarrow> i < length xs \<and> p (xs ! i) \<and> (\<forall>j<i. \<not> p (xs ! j))"
proof (induction xs arbitrary: i)
  case Nil
  then show ?case by simp
next
  case (Cons x xs)
  show ?case
  proof (cases "p x")
    case True
    with Cons.prems show ?thesis by simp
  next
    case False
    with Cons.prems obtain k where k: "findIndex p xs = Some k" "i = Suc k"
      by auto
    from Cons.IH [OF k(1)] False k(2) show ?thesis
      by (auto simp: less_Suc_eq_0_disj)
  qed
qed

lemma findIndex_None: "findIndex p xs = None \<longleftrightarrow> (\<forall>x\<in>set xs. \<not> p x)"
  by (induction xs) auto

lemma splice1_length: "i < length xs \<Longrightarrow> length (splice1 i xs) = length xs - 1"
  by (simp add: splice1_def)

lemma splice1_distinct_notin:
  assumes "distinct (map f xs)" and "i < length xs"
  shows "f (xs ! i) \<notin> f ` set (splice1 i xs)"
proof -
  have "xs = take i xs @ xs ! i # drop (Suc i) xs"
    using assms(2) by (simp add: id_take_nth_drop)
  then have "distinct (map f (take i xs @ xs ! i # drop (Suc i) xs))"
    using assms(1) by simp
  then show ?thesis
    by (auto simp: splice1_def)
qed

lemma getData_new_shape:
  "disk st = Parsed d \<Longrightarrow> d_series d = Some ss \<Longrightarrow> getData uuid now st = (d, st)"
  by (simp add: getData_def getData_try_def)

lemma deleteSeries_local_sends_nothing:
  "s3_calls (snd (deleteSeries_local mig now seriesId st0)) = s3_calls st0"
  using getData_keeps_calls [of mig now st0]
  by (auto simp: deleteSeries_local_def saveData_def Let_def
      split: prod.splits sum.splits option.splits)

text \<open>
  C1, as stated, fails: a series whose thumbnail is a legacy local path has one
  reachable asset reference, and deleting the series sends no delete to the store,
  because \<^verbatim>\<open>getKeyFromUrl\<close> resolves only S3 URLs to a key.
\<close>

theorem deleteSeries_counterexample:
  "assetRefs localThumbSeries = [''/uploads/series-thumbnails/a.png'']
   \<and> deleteSeries neverFails ''u1'' ''t1'' ''s1'' (onDisk (docWith [localThumbSeries]))
       = (Inr (), onDisk (docWith []))
   \<and> s3_calls (onDisk (docWith [])) = []"
  by (simp add: assetRefs_def episodeRefs_def localThumbSeries_def blankEpisode_def
      deleteSeries_def getData_def getData_try_def onDisk_def docWith_def seriesOf_def
      deleteIfSet_def deleteRef_def getKeyFromUrl_def deleteEpisodeFiles_def saveData_def
      splice1_def Let_def)

text \<open>
  C1, amended. When the loaded document has a series with the requested identifier,
  \<^verbatim>\<open>DELETE /series/:seriesId\<close> succeeds; the first such series is removed from the
  persisted document and from what \<open>listSeries\<close> returns next, and with the unique
  identifiers of the data model no series with that identifier is left. Before the
  removal, that is while the file still holds the loaded document with the series in
  it, the route sends, in the order of the traversal, exactly one delete for each
  reachable asset reference that \<^verbatim>\<open>getKeyFromUrl\<close> resolves to a key, and none for the
  others. The outcome does not depend on \<open>fails\<close>, that is on which deletes succeed.
\<close>

theorem deleteSeries_removes_and_deletes:
  assumes "getData mig now st0 = (data, st)"
    and "d_series data = Some ss"
    and "findIndex (\<lambda>s. s_id s = seriesId) ss = Some i"
    and "keys = resolvedKeys (assetRefs (ss ! i))"
    and "st' = \<lparr>disk = Parsed (data\<lparr>d_series := Some (splice1 i ss)\<rparr>),
                s3_calls = s3_calls st0 @ keys,
                s3_seen = s3_seen st0 @ replicate (length keys) (Parsed data)\<rparr>"
  shows "deleteSeries fails mig now seriesId st0 = (Inr (), st')
         \<and> listSeries mig' now' st' = (Some (splice1 i ss), st')
         \<and> s_id (ss ! i) = seriesId
         \<and> ss ! i \<in> set ss
         \<and> length (splice1 i ss) = length ss - 1
         \<and> (distinct (map s_id ss) \<longrightarrow> seriesId \<notin> s_id ` set (splice1 i ss))"
proof -
  from findIndex_Some [OF assms(3)] have i: "i < length ss" "s_id (ss ! i) = seriesId"
    by auto
  then have ne: "ss \<noteq> []"
    by auto
  have calls: "s3_calls st = s3_calls st0"
    using getData_keeps_calls [of mig now st0] assms(1) by simp
  have seen: "s3_seen st = s3_seen st0"
    using getData_keeps_seen [of mig now st0] assms(1) by simp
  have on_disk: "disk st = Parsed data"
    by (rule getData_on_disk [OF assms(1,2) ne])
  have "deleteSeries fails mig now seriesId st0 = (Inr (), st')"
    by (simp add: deleteSeries_def assms seriesOf_def deleteIfSet_eq deleteAllEpisodeFiles_eq
        assetRefs_def saveData_def logged_def calls seen on_disk replicate_add Let_def)
  moreover have "listSeries mig' now' st' = (Some (splice1 i ss), st')"
    by (simp add: listSeries_def assms(5) getData_new_shape [where ss = "splice1 i ss"])
  moreover have "distinct (map s_id ss) \<longrightarrow> seriesId \<notin> s_id ` set (splice1 i ss)"
    using splice1_distinct_notin [of s_id ss i] i by auto
  ultimately show ?thesis
    using i by (simp add: splice1_length)
qed

lemma gallery_keys:
  "resolvedKeys (assetRefs gallerySeries)
     = [''series-thumbnails/t.png'', ''thumbnails/e.png'', ''media/a.png'', ''media/b.mp4'']"
  by code_simp

theorem deleteSeries_removes_and_deletes_witness:
  "deleteSeries alwaysFails ''u1'' ''t1'' ''s2'' (onDisk (docWith [localThumbSeries, gallerySeries]))
     = (Inr (),
        \<lparr>disk = Parsed (docWith [localThumbSeries]),
         s3_calls = [''series-thumbnails/t.png'', ''thumbnails/e.png'', ''media/a.png'',
                     ''media/b.mp4''],
         s3_seen = replicate 4 (Parsed (docWith [localThumbSeries, gallerySeries]))\<rparr>)
   \<and> listSeries ''u2'' ''t2''
         \<lparr>disk = Parsed (docWith [localThumbSeries]),
          s3_calls = [''series-thumbnails/t.png'', ''thumbnails/e.png'', ''media/a.png'',
                      ''media/b.mp4''],
          s3_seen = replicate 4 (Parsed (docWith [localThumbSeries, gallerySeries]))\<rparr>
       = (Some [localThumbSeries],
          \<lparr>disk = Parsed (docWith [localThumbSeries]),
           s3_calls = [''series-thumbnails/t.png'', ''thumbnails/e.png'', ''media/a.png'',
                       ''media/b.mp4''],
           s3_seen = replicate 4 (Parsed (docWith [localThumbSeries, gallerySeries]))\<rparr>)"
proof -
  let ?st0 = "onDisk (docWith [localThumbSeries, gallerySeries])"
  let ?keys = "[''series-thumbnails/t.png'', ''thumbnails/e.png'', ''media/a.png'',
                ''media/b.mp4'']"
  let ?st' = "\<lparr>disk = Parsed (docWith [localThumbSeries]), s3_calls = ?keys,
               s3_seen = replicate 4 (Parsed (docWith [localThumbSeries, gallerySeries]))\<rparr>"
  have a1: "getData ''u1'' ''t1'' ?st0 = (docWith [localThumbSeries, gallerySeries], ?st0)"
    by (simp add: getData_def getData_try_def onDisk_def docWith_def)
  have a2: "d_series (docWith [localThumbSeries, gallerySeries])
              = Some [localThumbSeries, gallerySeries]"
    by (simp add: docWith_def)
  have a3: "findIndex (\<lambda>s. s_id s = ''s2'') [localThumbSeries, gallerySeries] = Some 1"
    by (simp add: localThumbSeries_def gallerySeries_def)
  have a4: "?keys = resolvedKeys (assetRefs ([localThumbSeries, gallerySeries] ! 1))"
    by (simp add: gallery_keys)
  have a5: "?st' = \<lparr>disk = Parsed ((docWith [localThumbSeries, gallerySeries])
                        \<lparr>d_series := Some (splice1 1 [localThumbSeries, gallerySeries])\<rparr>),
                     s3_calls = s3_calls ?st0 @ ?keys,
                     s3_seen = s3_seen ?st0
                       @ replicate (length ?keys)
                           (Parsed (docWith [localThumbSeries, gallerySeries]))\<rparr>"
    by (simp add: splice1_def onDisk_def docWith_def numeral_eq_Suc)
  have s: "splice1 1 [localThumbSeries, gallerySeries] = [localThumbSeries]"
    by (simp add: splice1_def)
  from deleteSeries_removes_and_deletes [OF a1 a2 a3 a4 a5, of alwaysFails "''u2''" "''t2''"]
  have "deleteSeries alwaysFails ''u1'' ''t1'' ''s2'' ?st0 = (Inr (), ?st')"
    and "listSeries ''u2'' ''t2'' ?st' = (Some (splice1 1 [localThumbSeries, gallerySeries]), ?st')"
    by blast+
  then show ?thesis
    by (simp only: s)
qed

section \<open>Updating a series\<close>

lemma length_reconcileSpec: "length (reconcileSpec n base) = n"
  by (simp add: reconcileSpec_def)

lemma take_reconcileSpec:
  "take (min n (length base)) (reconcileSpec n base) = take (min n (length base)) base"
  by (simp add: reconcileSpec_def min_def)

lemma nth_reconcileSpec:
  "length base \<le> k \<Longrightarrow> k < n \<Longrightarrow> reconcileSpec n base ! k = blankEpisode (k + 1)"
  by (simp add: reconcileSpec_def nth_append del: upt_Suc)

lemma reconcileSpec_same: "length base = n \<Longrightarrow> reconcileSpec n base = base"
  by (simp add: reconcileSpec_def)

lemma applyUpdate_count:
  "applyUpdate \<lparr>u_title = None, u_description = None, u_episodeCount = Some (JNum (of_nat n)),
                u_episodes = eo\<rparr> S
     = (if JNum (of_nat n) \<noteq> s_episodeCount S
        then S\<lparr>s_episodeCount := JNum (of_nat n),
               s_episodes := reconcileSpec n (case eo of None \<Rightarrow> s_episodes S | Some es \<Rightarrow> es)\<rparr>
        else S\<lparr>s_episodes := (case eo of None \<Rightarrow> s_episodes S | Some es \<Rightarrow> es)\<rparr>)"
  by (cases eo)
     (simp_all add: applyUpdate_def reconcileSpec_def padEpisodes_eq slice0_natural)

text \<open>
  C3, as stated, fails, because the route reconciles the episodes only when the count
  supplied differs from the stored one. An update of a series with count 2 that
  supplies the count 2 and an array of one episode stores the one episode unpadded.
  And the series migrated from the legacy document \<^verbatim>\<open>{"showTitle": "X"}\<close> has count 1
  and no episode, and an update with count 1 leaves it so.
\<close>

theorem updateSeries_count_counterexample:
  "fst (updateSeries ''u1'' ''t1'' ''s1''
          \<lparr>u_title = None, u_description = None, u_episodeCount = Some (JNum 2),
           u_episodes = Some [galleryEpisode]\<rparr>
          (onDisk (docWith [tripSeries])))
     = Inr (tripSeries\<lparr>s_episodes := [galleryEpisode]\<rparr>)
   \<and> s_episodeCount tripSeries = JNum 2
   \<and> fst (updateSeries ''u1'' ''t1'' ''u1'' (countOnly 1) (onDisk legacyBare))
     = Inr \<lparr>s_id = ''u1'', s_title = ''X'', s_description = ''A personal documentary'',
            s_thumbnail = None, s_createdAt = ''t1'', s_episodeCount = JNum 1,
            s_episodes = []\<rparr>"
  by (simp add: updateSeries_def getData_def getData_try_def onDisk_def docWith_def
      legacyBare_def tripSeries_def countOnly_def or_count_def or_arr_def saveData_def
      seriesOf_def applyUpdate_def Let_def)

text \<open>
  C3, amended. An update of a stored series \<open>S\<close> that supplies the count \<open>n\<close> and possibly
  an episodes array, where \<open>n\<close> differs from the stored count, or where no array is
  supplied and \<open>S\<close> has as many episodes as its count: the series returned and persisted
  has count \<open>n\<close> and \<open>n\<close> episodes, which are the first \<open>n\<close> of the base (the array
  supplied, else the stored episodes) followed by fresh episodes titled
  \<open>Episode k\<close> for \<open>k\<close> from the length of the base plus one up to \<open>n\<close>. Growth thus pads
  from the end of a supplied array.
\<close>

theorem updateSeries_episodeCount:
  assumes "getData mig now st0 = (data, st)"
    and "d_series data = Some ss"
    and "findIndex (\<lambda>s. s_id s = seriesId) ss = Some i"
    and "body = \<lparr>u_title = None, u_description = None, u_episodeCount = Some (JNum (of_nat n)),
                 u_episodes = eo\<rparr>"
    and "base = (case eo of None \<Rightarrow> s_episodes (ss ! i) | Some es \<Rightarrow> es)"
    and "JNum (of_nat n) \<noteq> s_episodeCount (ss ! i) \<or> (eo = None \<and> consistent (ss ! i))"
    and "S' = (ss ! i)\<lparr>s_episodeCount := JNum (of_nat n), s_episodes := reconcileSpec n base\<rparr>"
  shows "updateSeries mig now seriesId body st0
           = (Inr S', st\<lparr>disk := Parsed (data\<lparr>d_series := Some (ss[i := S'])\<rparr>)\<rparr>)
         \<and> length (s_episodes S') = n
         \<and> take (min n (length base)) (s_episodes S') = take (min n (length base)) base
         \<and> (\<forall>k. length base \<le> k \<and> k < n \<longrightarrow>
               s_episodes S' ! k = blankEpisode (k + 1)
               \<and> e_title (s_episodes S' ! k) = ''Episode '' @ numToString (k + 1))"
proof -
  have "applyUpdate body (ss ! i) = S'"
    using assms(6)
    by (auto simp: assms(4,5,7) applyUpdate_count consistent_def reconcileSpec_same)
  then have "updateSeries mig now seriesId body st0
               = (Inr S', st\<lparr>disk := Parsed (data\<lparr>d_series := Some (ss[i := S'])\<rparr>)\<rparr>)"
    by (simp add: updateSeries_def assms(1,2,3) seriesOf_def saveData_def Let_def)
  moreover have "s_episodes S' = reconcileSpec n base"
    by (simp add: assms(7))
  ultimately show ?thesis
    by (simp add: length_reconcileSpec take_reconcileSpec nth_reconcileSpec blankEpisode_def)
qed

theorem updateSeries_episodeCount_witness:
  "updateSeries ''u1'' ''t1'' ''s1''
       \<lparr>u_title = None, u_description = None, u_episodeCount = Some (JNum 3),
        u_episodes = Some [galleryEpisode]\<rparr>
       (onDisk (docWith [tripSeries]))
     = (Inr (tripSeries\<lparr>s_episodeCount := JNum 3,
                        s_episodes := [galleryEpisode, blankEpisode 2, blankEpisode 3]\<rparr>),
        onDisk (docWith [tripSeries\<lparr>s_episodeCount := JNum 3,
                          s_episodes := [galleryEpisode, blankEpisode 2, blankEpisode 3]\<rparr>]))
   \<and> map e_title [blankEpisode 2, blankEpisode 3] = [''Episode 2'', ''Episode 3'']"
proof -
  let ?st0 = "onDisk (docWith [tripSeries])"
  have a1: "getData ''u1'' ''t1'' ?st0 = (docWith [tripSeries], ?st0)"
    by (simp add: getData_def getData_try_def onDisk_def docWith_def)
  have a2: "d_series (docWith [tripSeries]) = Some [tripSeries]"
    by (simp add: docWith_def)
  have a3: "findIndex (\<lambda>s. s_id s = ''s1'') [tripSeries] = Some 0"
    by (simp add: tripSeries_def)
  have a6: "JNum (of_nat 3) \<noteq> s_episodeCount ([tripSeries] ! 0)
            \<or> (Some [galleryEpisode] = None \<and> consistent ([tripSeries] ! 0))"
    by (simp add: tripSeries_def)
  have r: "reconcileSpec 3 [galleryEpisode] = [galleryEpisode, blankEpisode 2, blankEpisode 3]"
    by (simp add: reconcileSpec_def upt_rec numeral_2_eq_2 numeral_3_eq_3)
  have t: "map e_title [blankEpisode 2, blankEpisode 3] = [''Episode 2'', ''Episode 3'']"
    by code_simp
  show ?thesis
    using updateSeries_episodeCount [OF a1 a2 a3 refl refl a6 refl] r t
    by (simp add: onDisk_def docWith_def)
qed

section \<open>Reordering media\<close>

lemma update_fresh: "k \<notin> fst ` set al \<Longrightarrow> AList.update k v al = al @ [(k, v)]"
  by (induction al) auto

lemma buildMediaMap_from:
  "distinct (map fst acc @ map m_id media) \<Longrightarrow>
   foldl (\<lambda>mediaMap m. AList.update (m_id m) m mediaMap) acc media = acc @ entries media"
proof (induction media arbitrary: acc)
  case Nil
  show ?case by (simp add: entries_def)
next
  case (Cons m media)
  from Cons.prems have fresh: "m_id m \<notin> fst ` set acc"
    by auto
  from Cons.prems have "distinct (map fst (acc @ [(m_id m, m)]) @ map m_id media)"
    by auto
  from Cons.IH [OF this] fresh show ?case
    by (simp add: update_fresh entries_def)
qed

lemma buildMediaMap_distinct:
  "distinct (map m_id media) \<Longrightarrow> buildMediaMap media = entries media"
  using buildMediaMap_from [of "[]" media] by (simp add: buildMediaMap_def)

lemma map_of_entries_None:
  "map_of (entries media) i = None \<Longrightarrow>
   filter (\<lambda>m. m_id m = i) media = [] \<and> filter (\<lambda>m. m_id m \<noteq> i) media = media"
  by (induction media) (auto simp: entries_def split: if_splits)

lemma map_of_entries_Some:
  "distinct (map m_id media) \<Longrightarrow> map_of (entries media) i = Some m \<Longrightarrow>
   filter (\<lambda>m. m_id m = i) media = [m]"
proof (induction media)
  case Nil
  then show ?case by (simp add: entries_def)
next
  case (Cons x media)
  show ?case
  proof (cases "m_id x = i")
    case True
    with Cons.prems have "x = m" and "i \<notin> m_id ` set media"
      by (auto simp: entries_def)
    then have "x = m" and "filter (\<lambda>m. m_id m = i) media = []"
      by (force simp: filter_empty_conv)+
    then show ?thesis
      using True by simp
  next
    case False
    with Cons show ?thesis
      by (simp add: entries_def)
  qed
qed

lemma delete_entries:
  "AList.delete i (entries media) = entries (filter (\<lambda>m. m_id m \<noteq> i) media)"
  by (induction media) (auto simp: entries_def)

lemma reorder_loop:
  "distinct (map m_id media) \<Longrightarrow>
   foldl reorderStep (out, entries media) ids
     = (out @ moveMatching media ids, entries (filter (\<lambda>m. m_id m \<notin> set ids) media))"
proof (induction ids arbitrary: out media)
  case Nil
  show ?case by simp
next
  case (Cons i ids)
  show ?case
  proof (cases "map_of (entries media) i")
    case None
    from map_of_entries_None [OF None]
    have e: "filter (\<lambda>m. m_id m = i) media = []" "filter (\<lambda>m. m_id m \<noteq> i) media = media"
      by auto
    have f: "filter (\<lambda>m. m_id m \<notin> set (i # ids)) media
               = filter (\<lambda>m. m_id m \<notin> set ids) (filter (\<lambda>m. m_id m \<noteq> i) media)"
      by (auto intro: filter_cong)
    have "foldl reorderStep (out, entries media) (i # ids)
            = foldl reorderStep (out, entries media) ids"
      by (simp add: reorderStep_def None)
    also have "\<dots> = (out @ moveMatching media ids,
                       entries (filter (\<lambda>m. m_id m \<notin> set ids) media))"
      by (rule Cons.IH [OF Cons.prems])
    finally show ?thesis
      by (simp only: moveMatching.simps e f append_Nil)
  next
    case (Some m)
    let ?rest = "filter (\<lambda>m. m_id m \<noteq> i) media"
    have d: "distinct (map m_id ?rest)"
      using Cons.prems by (simp add: distinct_map_filter)
    have e: "filter (\<lambda>m. m_id m = i) media = [m]"
      by (rule map_of_entries_Some [OF Cons.prems Some])
    have f: "filter (\<lambda>m. m_id m \<notin> set (i # ids)) media
               = filter (\<lambda>m. m_id m \<notin> set ids) ?rest"
      by (auto intro: filter_cong)
    have "foldl reorderStep (out, entries media) (i # ids)
            = foldl reorderStep (out @ [m], entries ?rest) ids"
      by (simp add: reorderStep_def Some delete_entries)
    also have "\<dots> = ((out @ [m]) @ moveMatching ?rest ids,
                       entries (filter (\<lambda>m. m_id m \<notin> set ids) ?rest))"
      by (rule Cons.IH [OF d])
    finally show ?thesis
      by (simp only: moveMatching.simps e f append_assoc append_Cons append_Nil)
  qed
qed

lemma reorderList_spec:
  "distinct (map m_id media) \<Longrightarrow> reorderList media ids = reorderSpec media ids"
proof -
  assume d: "distinct (map m_id media)"
  have "foldl reorderStep ([], buildMediaMap media) ids
          = (moveMatching media ids, entries (filter (\<lambda>m. m_id m \<notin> set ids) media))"
    using reorder_loop [OF d, of "[]" ids] by (simp add: buildMediaMap_distinct [OF d])
  then show ?thesis
    by (simp add: reorderList_def reorderSpec_def entries_def comp_def)
qed

lemma mset_reorderSpec: "mset (reorderSpec media ids) = mset media"
proof -
  have "mset (moveMatching media ids) + mset (filter (\<lambda>m. m_id m \<notin> set ids) media) = mset media"
  proof (induction ids arbitrary: media)
    case Nil
    show ?case by simp
  next
    case (Cons i ids)
    let ?rest = "filter (\<lambda>m. m_id m \<noteq> i) media"
    have f: "filter (\<lambda>m. m_id m \<notin> set (i # ids)) media
               = filter (\<lambda>m. m_id m \<notin> set ids) ?rest"
      by (auto intro: filter_cong)
    have "mset (moveMatching media (i # ids)) + mset (filter (\<lambda>m. m_id m \<notin> set (i # ids)) media)
            = mset (filter (\<lambda>m. m_id m = i) media)
              + (mset (moveMatching ?rest ids) + mset (filter (\<lambda>m. m_id m \<notin> set ids) ?rest))"
      by (simp only: moveMatching.simps f mset_append add.assoc)
    also have "\<dots> = mset (filter (\<lambda>m. m_id m = i) media) + mset ?rest"
      by (simp only: Cons.IH)
    also have "\<dots> = mset media"
      using multiset_partition [of "mset media" "\<lambda>m. m_id m = i"] by simp
    finally show ?case .
  qed
  then show ?thesis
    by (simp add: reorderSpec_def)
qed

lemma filter_id_single:
  "distinct (map m_id media) \<Longrightarrow> i \<in> m_id ` set media \<Longrightarrow>
   map m_id (filter (\<lambda>m. m_id m = i) media) = [i]"
proof (induction media)
  case Nil
  then show ?case by simp
next
  case (Cons x media)
  show ?case
  proof (cases "m_id x = i")
    case True
    with Cons.prems(1) have "i \<notin> m_id ` set media"
      by auto
    then have "filter (\<lambda>m. m_id m = i) media = []"
      by (force simp: filter_empty_conv)
    with True show ?thesis by simp
  next
    case False
    with Cons show ?thesis by auto
  qed
qed

lemma moveMatching_ids:
  "distinct (map m_id media) \<Longrightarrow> distinct ids \<Longrightarrow> set ids \<subseteq> m_id ` set media \<Longrightarrow>
   map m_id (moveMatching media ids) = ids"
proof (induction ids arbitrary: media)
  case Nil
  show ?case by simp
next
  case (Cons i ids)
  let ?rest = "filter (\<lambda>m. m_id m \<noteq> i) media"
  have d: "distinct (map m_id ?rest)"
    using Cons.prems(1) by (simp add: distinct_map_filter)
  have s: "set ids \<subseteq> m_id ` set ?rest"
  proof
    fix x
    assume x: "x \<in> set ids"
    with Cons.prems(2) have "x \<noteq> i"
      by auto
    moreover from x Cons.prems(3) obtain m where "m \<in> set media" "m_id m = x"
      by auto
    ultimately show "x \<in> m_id ` set ?rest"
      by force
  qed
  have "map m_id (filter (\<lambda>m. m_id m = i) media) = [i]"
    using Cons.prems(1,3) by (simp add: filter_id_single)
  moreover have "map m_id (moveMatching ?rest ids) = ids"
    using Cons.IH [OF d _ s] Cons.prems(2) by simp
  ultimately show ?case
    by simp
qed

lemma set_moveMatching:
  "set (moveMatching media ids) \<subseteq> {m \<in> set media. m_id m \<in> set ids}"
proof (induction ids arbitrary: media)
  case Nil
  show ?case by simp
next
  case (Cons i ids)
  from Cons.IH [of "filter (\<lambda>m. m_id m \<noteq> i) media"] show ?case
    by auto
qed

lemma parseInt_zero: "parseInt ''0'' = Some (int 0)"
  by code_simp

text \<open>
  The route on an episode it reaches: the reordered media are returned and written into
  that episode of that series, and nothing else of the document changes.
\<close>

lemma reorderMedia_located:
  assumes "getData mig now st0 = (data, st)"
    and "d_series data = Some ss"
    and "findIndex (\<lambda>s. s_id s = seriesId) ss = Some i"
    and "parseInt idx = Some (int k)"
    and "k < length (s_episodes (ss ! i))"
    and "media = e_media (s_episodes (ss ! i) ! k)"
  shows "reorderMedia mig now seriesId idx (Some ids) st0
           = (Inr (reorderList media ids),
              st\<lparr>disk := Parsed (data\<lparr>d_series := Some (ss[i := (ss ! i)
                         \<lparr>s_episodes := (s_episodes (ss ! i))[k := (s_episodes (ss ! i) ! k)
                            \<lparr>e_media := reorderList media ids\<rparr>]\<rparr>])\<rparr>)\<rparr>)"
  using assms(5)
  by (simp add: reorderMedia_def assms(1,2,3,4,6) locateEpisode_def seriesOf_def saveData_def
      putEpisode_def Let_def)

lemma getData_duplicate:
  "getData ''u1'' ''t1'' (onDisk (docWith [duplicateSeries]))
     = (docWith [duplicateSeries], onDisk (docWith [duplicateSeries]))"
  by (simp add: getData_def getData_try_def onDisk_def docWith_def)

lemma reorderList_duplicate: "reorderList [mediaA, mediaB, mediaA2] [''mb''] = [mediaB, mediaA2]"
proof -
  have ids: "m_id mediaA = ''ma''" "m_id mediaB = ''mb''" "m_id mediaA2 = ''ma''"
    by (simp_all add: mediaA_def mediaB_def mediaA2_def)
  show ?thesis
    by (simp add: reorderList_def buildMediaMap_def reorderStep_def ids AList.delete_eq)
qed

text \<open>
  C4, as stated, fails on an episode that holds two items with one identifier, which the
  routes that store caller-supplied episodes allow: the \<^verbatim>\<open>Map\<close> keeps one item for each
  identifier, so of the three items with the identifiers \<open>ma\<close>, \<open>mb\<close>, \<open>ma\<close> only two are
  left after a reorder with the list \<open>[mb]\<close>.
\<close>

theorem reorderMedia_duplicate_counterexample:
  "e_media (s_episodes duplicateSeries ! 0) = [mediaA, mediaB, mediaA2]
   \<and> fst (reorderMedia ''u1'' ''t1'' ''s3'' ''0'' (Some [''mb''])
            (onDisk (docWith [duplicateSeries])))
       = Inr [mediaB, mediaA2]"
proof -
  have a2: "d_series (docWith [duplicateSeries]) = Some [duplicateSeries]"
    by (simp add: docWith_def)
  have a3: "findIndex (\<lambda>s. s_id s = ''s3'') [duplicateSeries] = Some 0"
    by (simp add: duplicateSeries_def)
  have a5: "0 < length (s_episodes ([duplicateSeries] ! 0))"
    by (simp add: duplicateSeries_def)
  have a6: "[mediaA, mediaB, mediaA2] = e_media (s_episodes ([duplicateSeries] ! 0) ! 0)"
    by (simp add: duplicateSeries_def)
  have "e_media (s_episodes duplicateSeries ! 0) = [mediaA, mediaB, mediaA2]"
    by (simp add: duplicateSeries_def)
  moreover have "fst (reorderMedia ''u1'' ''t1'' ''s3'' ''0'' (Some [''mb''])
                        (onDisk (docWith [duplicateSeries])))
                   = Inr (reorderList [mediaA, mediaB, mediaA2] [''mb''])"
    by (simp only: reorderMedia_located [OF getData_duplicate a2 a3 parseInt_zero a5 a6] fst_conv)
  ultimately show ?thesis
    by (simp only: reorderList_duplicate)
qed

text \<open>
  C4, amended. When the route \<^verbatim>\<open>POST /series/:seriesId/media/:episodeIndex/reorder\<close>
  reaches an episode whose media have pairwise distinct identifiers, then for every list
  of identifiers it succeeds, writes the reordered media into that episode and nothing
  else, and sends nothing to the asset store. The reordered sequence is the one the
  specification describes: some of the items whose identifiers are in the list, followed
  by the items whose identifiers are not in the list, these in their original order;
  identifiers without a match are skipped. It has the length of the old sequence and
  the same items.
\<close>

theorem reorderMedia_keeps_all_items:
  assumes "getData mig now st0 = (data, st)"
    and "d_series data = Some ss"
    and "findIndex (\<lambda>s. s_id s = seriesId) ss = Some i"
    and "parseInt idx = Some (int k)"
    and "k < length (s_episodes (ss ! i))"
    and "media = e_media (s_episodes (ss ! i) ! k)"
    and "distinct (map m_id media)"
  shows "reorderMedia mig now seriesId idx (Some ids) st0
           = (Inr (reorderList media ids),
              st\<lparr>disk := Parsed (data\<lparr>d_series := Some (ss[i := (ss ! i)
                         \<lparr>s_episodes := (s_episodes (ss ! i))[k := (s_episodes (ss ! i) ! k)
                            \<lparr>e_media := reorderList media ids\<rparr>]\<rparr>])\<rparr>)\<rparr>)
         \<and> s3_calls st = s3_calls st0
         \<and> s3_seen st = s3_seen st0
         \<and> reorderList media ids = reorderSpec media ids
         \<and> (\<exists>moved. reorderList media ids = moved @ filter (\<lambda>m. m_id m \<notin> set ids) media
                     \<and> m_id ` set moved \<subseteq> set ids)
         \<and> length (reorderList media ids) = length media
         \<and> mset (reorderList media ids) = mset media
         \<and> set (reorderList media ids) = set media"
proof -
  have spec: "reorderList media ids = reorderSpec media ids"
    by (rule reorderList_spec [OF assms(7)])
  have m: "mset (reorderList media ids) = mset media"
    by (simp add: spec mset_reorderSpec)
  have calls: "s3_calls st = s3_calls st0"
    using getData_keeps_calls [of mig now st0] assms(1) by simp
  have seen: "s3_seen st = s3_seen st0"
    using getData_keeps_seen [of mig now st0] assms(1) by simp
  have "m_id ` set (moveMatching media ids) \<subseteq> set ids"
    using set_moveMatching [of media ids] by auto
  then have moved: "\<exists>moved. reorderList media ids
                       = moved @ filter (\<lambda>m. m_id m \<notin> set ids) media
                     \<and> m_id ` set moved \<subseteq> set ids"
    unfolding spec reorderSpec_def by blast
  from reorderMedia_located [OF assms(1-6)] spec m calls seen moved
    mset_eq_length [OF m] mset_eq_setD [OF m]
  show ?thesis
    by simp
qed

theorem reorderMedia_keeps_all_items_witness:
  "fst (reorderMedia ''u1'' ''t1'' ''s2'' ''0'' (Some [''mc'', ''zz'', ''ma'', ''mc''])
          (onDisk (docWith [gallerySeries])))
     = Inr [mediaC, mediaA, mediaB]
   \<and> s3_calls (snd (reorderMedia ''u1'' ''t1'' ''s2'' ''0'' (Some [''mc'', ''zz'', ''ma'', ''mc''])
          (onDisk (docWith [gallerySeries])))) = []"
proof -
  let ?st0 = "onDisk (docWith [gallerySeries])"
  have a1: "getData ''u1'' ''t1'' ?st0 = (docWith [gallerySeries], ?st0)"
    by (simp add: getData_def getData_try_def onDisk_def docWith_def)
  have a2: "d_series (docWith [gallerySeries]) = Some [gallerySeries]"
    by (simp add: docWith_def)
  have a3: "findIndex (\<lambda>s. s_id s = ''s2'') [gallerySeries] = Some 0"
    by (simp add: gallerySeries_def)
  have a5: "0 < length (s_episodes ([gallerySeries] ! 0))"
    by (simp add: gallerySeries_def)
  have a6: "[mediaA, mediaB, mediaC] = e_media (s_episodes ([gallerySeries] ! 0) ! 0)"
    by (simp add: gallerySeries_def galleryEpisode_def)
  have a7: "distinct (map m_id [mediaA, mediaB, mediaC])"
    by (simp add: mediaA_def mediaB_def mediaC_def)
  have r: "reorderSpec [mediaA, mediaB, mediaC] [''mc'', ''zz'', ''ma'', ''mc'']
             = [mediaC, mediaA, mediaB]"
    by (simp add: reorderSpec_def mediaA_def mediaB_def mediaC_def)
  from reorderMedia_keeps_all_items [OF a1 a2 a3 parseInt_zero a5 a6 a7,
      of "[''mc'', ''zz'', ''ma'', ''mc'']"]
  have "reorderMedia ''u1'' ''t1'' ''s2'' ''0'' (Some [''mc'', ''zz'', ''ma'', ''mc'']) ?st0
          = (Inr (reorderList [mediaA, mediaB, mediaC] [''mc'', ''zz'', ''ma'', ''mc'']),
             ?st0\<lparr>disk := Parsed ((docWith [gallerySeries])\<lparr>d_series := Some ([gallerySeries][0 :=
                 ([gallerySeries] ! 0)\<lparr>s_episodes := (s_episodes ([gallerySeries] ! 0))[0 :=
                   (s_episodes ([gallerySeries] ! 0) ! 0)\<lparr>e_media :=
                      reorderList [mediaA, mediaB, mediaC] [''mc'', ''zz'', ''ma'', ''mc'']\<rparr>]\<rparr>])\<rparr>)\<rparr>)"
    and "reorderList [mediaA, mediaB, mediaC] [''mc'', ''zz'', ''ma'', ''mc'']
           = reorderSpec [mediaA, mediaB, mediaC] [''mc'', ''zz'', ''ma'', ''mc'']"
    by blast+
  then show ?thesis
    by (simp add: r onDisk_def)
qed

lemma getData_twin:
  "getData ''u1'' ''t1'' (onDisk (docWith [twinSeries]))
     = (docWith [twinSeries], onDisk (docWith [twinSeries]))"
  by (simp add: getData_def getData_try_def onDisk_def docWith_def)

lemma reorderList_twin: "reorderList [mediaA, mediaA2] [''ma'', ''ma''] = [mediaA2]"
proof -
  have ids: "m_id mediaA = ''ma''" "m_id mediaA2 = ''ma''"
    by (simp_all add: mediaA_def mediaA2_def)
  show ?thesis
    by (simp add: reorderList_def buildMediaMap_def reorderStep_def ids AList.delete_eq)
qed

text \<open>
  C5, as stated, fails on an episode that holds two items with one identifier: the list
  \<open>[ma, ma]\<close> is a permutation of the identifiers of its media, and the route returns a
  single item.
\<close>

theorem reorderMedia_permutation_counterexample:
  "map m_id (e_media (s_episodes twinSeries ! 0)) = [''ma'', ''ma'']
   \<and> fst (reorderMedia ''u1'' ''t1'' ''s4'' ''0'' (Some [''ma'', ''ma''])
            (onDisk (docWith [twinSeries])))
       = Inr [mediaA2]
   \<and> map m_id [mediaA2] = [''ma'']"
proof -
  have a2: "d_series (docWith [twinSeries]) = Some [twinSeries]"
    by (simp add: docWith_def)
  have a3: "findIndex (\<lambda>s. s_id s = ''s4'') [twinSeries] = Some 0"
    by (simp add: twinSeries_def)
  have a5: "0 < length (s_episodes ([twinSeries] ! 0))"
    by (simp add: twinSeries_def)
  have a6: "[mediaA, mediaA2] = e_media (s_episodes ([twinSeries] ! 0) ! 0)"
    by (simp add: twinSeries_def)
  have "map m_id (e_media (s_episodes twinSeries ! 0)) = [''ma'', ''ma'']"
    and "map m_id [mediaA2] = [''ma'']"
    by (simp_all add: twinSeries_def mediaA_def mediaA2_def)
  moreover have "fst (reorderMedia ''u1'' ''t1'' ''s4'' ''0'' (Some [''ma'', ''ma''])
                        (onDisk (docWith [twinSeries])))
                   = Inr (reorderList [mediaA, mediaA2] [''ma'', ''ma''])"
    by (simp only: reorderMedia_located [OF getData_twin a2 a3 parseInt_zero a5 a6] fst_conv)
  ultimately show ?thesis
    by (simp only: reorderList_twin)
qed

text \<open>
  C5, amended. When the route reaches an episode whose media have pairwise distinct
  identifiers, and the list is a permutation of these identifiers, the route succeeds,
  the media it returns and writes into the episode have their identifiers in the order
  of the list, and they are a permutation of the old media.
\<close>

theorem reorderMedia_permutation:
  assumes "getData mig now st0 = (data, st)"
    and "d_series data = Some ss"
    and "findIndex (\<lambda>s. s_id s = seriesId) ss = Some i"
    and "parseInt idx = Some (int k)"
    and "k < length (s_episodes (ss ! i))"
    and "media = e_media (s_episodes (ss ! i) ! k)"
    and "distinct (map m_id media)"
    and "mset ids = mset (map m_id media)"
  shows "\<exists>r. reorderMedia mig now seriesId idx (Some ids) st0
                = (Inr r,
                   st\<lparr>disk := Parsed (data\<lparr>d_series := Some (ss[i := (ss ! i)
                          \<lparr>s_episodes := (s_episodes (ss ! i))[k := (s_episodes (ss ! i) ! k)
                             \<lparr>e_media := r\<rparr>]\<rparr>])\<rparr>)\<rparr>)
              \<and> map m_id r = ids
              \<and> mset r = mset media"
proof -
  from assms(7,8) have di: "distinct ids"
    by (metis mset_eq_imp_distinct_iff)
  from assms(8) have se: "set ids = m_id ` set media"
    by (metis mset_eq_setD set_map)
  then have "filter (\<lambda>m. m_id m \<notin> set ids) media = []"
    by (auto simp: filter_empty_conv)
  then have "reorderList media ids = moveMatching media ids"
    by (simp add: reorderList_spec [OF assms(7)] reorderSpec_def)
  moreover have "map m_id (moveMatching media ids) = ids"
    using moveMatching_ids [OF assms(7) di] se by simp
  moreover have "mset (reorderList media ids) = mset media"
    by (simp add: reorderList_spec [OF assms(7)] mset_reorderSpec)
  ultimately show ?thesis
    using reorderMedia_located [OF assms(1-6), of ids] by simp
qed

theorem reorderMedia_permutation_witness:
  "\<exists>r. fst (reorderMedia ''u1'' ''t1'' ''s2'' ''0'' (Some [''mc'', ''ma'', ''mb''])
              (onDisk (docWith [gallerySeries]))) = Inr r
       \<and> map m_id r = [''mc'', ''ma'', ''mb'']
       \<and> mset r = mset [mediaA, mediaB, mediaC]"
proof -
  let ?st0 = "onDisk (docWith [gallerySeries])"
  have a1: "getData ''u1'' ''t1'' ?st0 = (docWith [gallerySeries], ?st0)"
    by (simp add: getData_def getData_try_def onDisk_def docWith_def)
  have a2: "d_series (docWith [gallerySeries]) = Some [gallerySeries]"
    by (simp add: docWith_def)
  have a3: "findIndex (\<lambda>s. s_id s = ''s2'') [gallerySeries] = Some 0"
    by (simp add: gallerySeries_def)
  have a5: "0 < length (s_episodes ([gallerySeries] ! 0))"
    by (simp add: gallerySeries_def)
  have a6: "[mediaA, mediaB, mediaC] = e_media (s_episodes ([gallerySeries] ! 0) ! 0)"
    by (simp add: gallerySeries_def galleryEpisode_def)
  have a7: "distinct (map m_id [mediaA, mediaB, mediaC])"
    by (simp add: mediaA_def mediaB_def mediaC_def)
  have a8: "mset [''mc'', ''ma'', ''mb''] = mset (map m_id [mediaA, mediaB, mediaC])"
    by (simp add: mediaA_def mediaB_def mediaC_def)
  from reorderMedia_permutation [OF a1 a2 a3 parseInt_zero a5 a6 a7 a8]
  obtain r where "fst (reorderMedia ''u1'' ''t1'' ''s2'' ''0'' (Some [''mc'', ''ma'', ''mb'']) ?st0)
                    = Inr r"
    and "map m_id r = [''mc'', ''ma'', ''mb'']" and "mset r = mset [mediaA, mediaB, mediaC]"
    by auto
  then have "fst (reorderMedia ''u1'' ''t1'' ''s2'' ''0'' (Some [''mc'', ''ma'', ''mb'']) ?st0)
               = Inr r
             \<and> map m_id r = [''mc'', ''ma'', ''mb'']
             \<and> mset r = mset [mediaA, mediaB, mediaC]"
    by simp
  then show ?thesis ..
qed

section \<open>Episode routes: validation of the index\<close>

text \<open>
  What the routes do validate: an index at or past the number of episodes is answered
  with the 400 response, an unknown series with the 404 response, and the state is the
  one \<^verbatim>\<open>getData\<close> left.
\<close>

lemma locateEpisode_past_end:
  assumes "d_series data = Some ss"
    and "findIndex (\<lambda>s. s_id s = seriesId) ss = Some i"
    and "episodeIndex = Some k" and "int (length (s_episodes (ss ! i))) \<le> k"
  shows "locateEpisode h seriesId episodeIndex data = Inl InvalidIndex"
  using assms by (simp add: locateEpisode_def seriesOf_def)

lemma locateEpisode_no_series:
  assumes "d_series data = Some ss" and "findIndex (\<lambda>s. s_id s = seriesId) ss = None"
  shows "locateEpisode h seriesId episodeIndex data = Inl (NotFound ''Series not found'')"
  using assms by (simp add: locateEpisode_def seriesOf_def)

lemma episode_routes_propagate:
  assumes "getData mig now st0 = (data, st)"
    and "\<And>h. locateEpisode h seriesId (parseInt idx) data = Inl e"
  shows "uploadEpisodeThumbnail cfg fails mig now seriesId idx (Some key) st0 = (Inl e, st)"
    and "reqFiles \<noteq> [] \<Longrightarrow>
         uploadMedia cfg extname uuids mig now seriesId idx (Some reqFiles) st0 = (Inl e, st)"
    and "uploadMusic cfg fails mig now seriesId idx (Some f) st0 = (Inl e, st)"
    and "deleteMusic fails mig now seriesId idx st0 = (Inl e, st)"
    and "deleteMedia fails mig now seriesId idx mediaId st0 = (Inl e, st)"
    and "reorderMedia mig now seriesId idx (Some ids) st0 = (Inl e, st)"
  using assms
  by (simp_all add: uploadEpisodeThumbnail_def uploadMedia_def uploadMusic_def deleteMusic_def
      deleteMedia_def reorderMedia_def Let_def)

lemma parseInt_minus_one: "parseInt ''-1'' = Some (- 1)"
  by code_simp

lemma parseInt_abc: "parseInt ''abc'' = None"
  by code_simp

lemma getData_gallery:
  "getData ''u1'' ''t1'' (onDisk (docWith [gallerySeries]))
     = (docWith [gallerySeries], onDisk (docWith [gallerySeries]))"
  by (simp add: getData_def getData_try_def onDisk_def docWith_def)

lemma locate_gallery_minus_one:
  "locateEpisode h ''s2'' (Some (- 1)) (docWith [gallerySeries])
     = Inr ([gallerySeries], 0, gallerySeries)"
  by (simp add: locateEpisode_def seriesOf_def docWith_def gallerySeries_def)

lemma locate_gallery_NaN:
  "locateEpisode h ''s2'' None (docWith [gallerySeries])
     = Inr ([gallerySeries], 0, gallerySeries)"
  by (simp add: locateEpisode_def seriesOf_def docWith_def gallerySeries_def)

text \<open>
  C9. The claim fails on the route parameters \<^verbatim>\<open>-1\<close> and \<^verbatim>\<open>abc\<close>: the test
  \<^verbatim>\<open>episodeIndex >= series.episodes.length\<close> is false for a negative number and for
  \<^verbatim>\<open>NaN\<close>, so each of the six routes goes on to read an attribute of
  \<^verbatim>\<open>series.episodes[episodeIndex]\<close>, which is \<^verbatim>\<open>undefined\<close>: a \<^verbatim>\<open>TypeError\<close> and not the
  400 response. The two synchronous handlers are answered with 500 by Express, the four
  \<^verbatim>\<open>async\<close> ones send no response. The document is left unchanged.
\<close>

theorem episode_routes_negative_or_NaN_index:
  "parseInt ''-1'' = Some (- 1) \<and> parseInt ''abc'' = None
   \<and> uploadEpisodeThumbnail sampleConfig neverFails ''u1'' ''t1'' ''s2'' ''-1''
        (Some ''thumbnails/n.png'') (onDisk (docWith [gallerySeries]))
       = (Inl UncaughtTypeError, onDisk (docWith [gallerySeries]))
   \<and> uploadMedia sampleConfig sampleExtname sampleUuids ''u1'' ''t1'' ''s2'' ''abc''
        (Some [sampleMedia]) (onDisk (docWith [gallerySeries]))
       = (Inl ThrownTypeError, onDisk (docWith [gallerySeries]))
   \<and> uploadMusic sampleConfig neverFails ''u1'' ''t1'' ''s2'' ''-1''
        (Some sampleUpload) (onDisk (docWith [gallerySeries]))
       = (Inl UncaughtTypeError, onDisk (docWith [gallerySeries]))
   \<and> deleteMusic neverFails ''u1'' ''t1'' ''s2'' ''abc'' (onDisk (docWith [gallerySeries]))
       = (Inl UncaughtTypeError, onDisk (docWith [gallerySeries]))
   \<and> deleteMedia neverFails ''u1'' ''t1'' ''s2'' ''-1'' ''ma'' (onDisk (docWith [gallerySeries]))
       = (Inl UncaughtTypeError, onDisk (docWith [gallerySeries]))
   \<and> reorderMedia ''u1'' ''t1'' ''s2'' ''abc'' (Some [''mb'', ''ma''])
        (onDisk (docWith [gallerySeries]))
       = (Inl ThrownTypeError, onDisk (docWith [gallerySeries]))
   \<and> statusCode ThrownTypeError = Some 500 \<and> statusCode UncaughtTypeError = None
   \<and> statusCode InvalidIndex = Some 400"
  by (simp add: parseInt_minus_one parseInt_abc uploadEpisodeThumbnail_def uploadMedia_def
      uploadMusic_def deleteMusic_def deleteMedia_def reorderMedia_def getData_gallery
      locate_gallery_minus_one locate_gallery_NaN Let_def)

theorem episode_routes_negative_or_NaN_index_witness:
  "truthy_arr (Some [sampleMedia]) \<and> length (the (Some [sampleMedia])) \<noteq> 0
   \<and> fst (uploadMedia sampleConfig sampleExtname sampleUuids ''u1'' ''t1'' ''s2'' ''abc''
          (Some [sampleMedia]) (onDisk (docWith [gallerySeries])))
       = Inl ThrownTypeError
   \<and> fst (deleteMusic neverFails ''u1'' ''t1'' ''s2'' ''abc'' (onDisk (docWith [gallerySeries])))
       = Inl UncaughtTypeError"
  using episode_routes_negative_or_NaN_index by simp

section \<open>The invariant of the episode count\<close>













end
